theory Spec2Isabelle
  imports Main "HOL-Library.AList"
begin

text \<open>
  A model of the client of the image generator: the history ledger
  (\<^verbatim>\<open>historyStore.ts\<close>), the credential rotation of the canvas node
  (\<^verbatim>\<open>ImageNode.tsx\<close>), the API client (\<^verbatim>\<open>api.ts\<close>) and the generation
  handler of the hook \<^verbatim>\<open>useImageGenerator\<close>. Functions keep the names of the
  source. Record fields carry a short prefix where several records of the source
  share a field name (\<^verbatim>\<open>url\<close>, \<^verbatim>\<open>prompt\<close>, \<^verbatim>\<open>provider\<close>, ...). What the
  code takes from its environment (the clock, the id generator, the network, the
  quota of the browser store) is an explicit argument; what it changes is
  returned as a new state.
\<close>

section \<open>JSON values and the browser store\<close>

text \<open>
  The history ledger of \<^verbatim>\<open>historyStore.ts\<close> keeps its entries as JSON text in
  \<^verbatim>\<open>localStorage\<close>. Whatever is read back is cast to \<^verbatim>\<open>ImageHistoryItem[]\<close>
  without validation, so an entry is modelled as the JSON value it is, not as a
  record: a field may be missing or carry a value of another type. Numbers are
  integers (\<^verbatim>\<open>Date.now()\<close> readings and sums of them); an object is the list
  of its key/value pairs in insertion order.
\<close>

datatype json =
    JNull
  | JBool bool
  | JNum int
  | JStr string
  | JArr "json list"
  | JObj "(string \<times> json) list"

type_synonym ImageHistoryItem = json

text \<open>Property read \<^verbatim>\<open>x.k\<close>; \<open>None\<close> is JavaScript's \<^verbatim>\<open>undefined\<close>.
  Only the keys \<^verbatim>\<open>id\<close> and \<^verbatim>\<open>expiresAt\<close> are ever read from an entry,
  and an array has neither.\<close>

fun jprop :: "json \<Rightarrow> string \<Rightarrow> json option" where
  "jprop (JObj fs) k = map_of fs k"
| "jprop _ k = None"

text \<open>\<^verbatim>\<open>typeof v === 'number'\<close>\<close>

fun is_number :: "json option \<Rightarrow> bool" where
  "is_number (Some (JNum n)) = True"
| "is_number _ = False"

text \<open>\<^verbatim>\<open>!!x && typeof x === 'object'\<close>: objects and arrays pass, \<^verbatim>\<open>null\<close>
  does not.\<close>

fun is_object :: "json \<Rightarrow> bool" where
  "is_object (JObj fs) = True"
| "is_object (JArr xs) = True"
| "is_object _ = False"

text \<open>
  The value kept under \<^verbatim>\<open>HISTORY_STORAGE_KEY\<close>: either text that
  \<^verbatim>\<open>JSON.parse\<close> rejects (the empty string included: both make
  \<^verbatim>\<open>safeParseArray\<close> return \<^verbatim>\<open>[]\<close>), or the JSON value the text denotes.
  \<^verbatim>\<open>JSON.stringify\<close> followed by \<^verbatim>\<open>JSON.parse\<close> gives a value of type
  \<^typ>\<open>json\<close> back unchanged, so writing stores the value itself.

  \<^verbatim>\<open>localStorage.setItem\<close> throws when the browser's quota is exceeded; which
  values the store still takes is the field \<open>accepts\<close>.
\<close>

datatype stored = Unparsable | Doc json

record localStorage =
  history_value :: "stored option"
  accepts :: "stored \<Rightarrow> bool"

section \<open>historyStore.ts\<close>

definition HISTORY_TTL_MS :: int where
  "HISTORY_TTL_MS = 24 * 60 * 60 * 1000"

definition MAX_ITEMS :: nat where
  "MAX_ITEMS = 200"

fun safeParseArray :: "stored option \<Rightarrow> ImageHistoryItem list" where
  "safeParseArray None = []"
| "safeParseArray (Some Unparsable) = []"
| "safeParseArray (Some (Doc (JArr parsed))) = filter is_object parsed"
| "safeParseArray (Some (Doc _)) = []"

text \<open>\<^verbatim>\<open>try { localStorage.setItem(...) } catch { }\<close>: a refused write leaves the
  store as it was, silently.\<close>

definition writeHistory :: "ImageHistoryItem list \<Rightarrow> localStorage \<Rightarrow> localStorage" where
  "writeHistory items st =
     (if accepts st (Doc (JArr items)) then st\<lparr>history_value := Some (Doc (JArr items))\<rparr>
      else st)"

text \<open>The filter of \<^verbatim>\<open>getHistory\<close>, \<^verbatim>\<open>clearExpiredHistory\<close> and
  \<^verbatim>\<open>getHistoryStats\<close>:
  \<^verbatim>\<open>typeof i.expiresAt !== 'number' || i.expiresAt > now\<close>.\<close>

definition unexpired :: "int \<Rightarrow> ImageHistoryItem \<Rightarrow> bool" where
  "unexpired now i =
     (case jprop i ''expiresAt'' of
        Some (JNum e) \<Rightarrow> e > now
      | _ \<Rightarrow> True)"

text \<open>Decimal rendering of a number in a template literal.\<close>

definition digit :: "nat \<Rightarrow> char" where
  "digit d = ''0123456789'' ! d"

fun digits :: "nat \<Rightarrow> string" where
  "digits n =
     (if n < 10 then [digit n]
      else digits (n div 10) @ [digit (n mod 10)])"

definition show_int :: "int \<Rightarrow> string" where
  "show_int i = (if i < 0 then CHR ''-'' # digits (nat (- i)) else digits (nat i))"

text \<open>
  \<^verbatim>\<open>generateId\<close> draws on the runtime: \<open>randomUUID\<close> is the value of
  \<^verbatim>\<open>crypto.randomUUID()\<close> where the runtime has it; otherwise the id is built from
  a clock reading and \<open>random_hex\<close>, the text of
  \<^verbatim>\<open>Math.random().toString(16).slice(2)\<close>.
\<close>

record id_source =
  randomUUID :: "string option"
  id_clock :: int
  random_hex :: string

definition generateId :: "id_source \<Rightarrow> string" where
  "generateId src =
     (case randomUUID src of
        Some uuid \<Rightarrow> uuid
      | None \<Rightarrow> ''hist_'' @ show_int (id_clock src) @ ''_'' @ random_hex src)"

text \<open>\<^verbatim>\<open>getHistory\<close>; \<open>now\<close> is its reading of \<^verbatim>\<open>Date.now()\<close>. It returns
  the list and the store it leaves behind.\<close>

definition getHistory :: "int \<Rightarrow> localStorage \<Rightarrow> ImageHistoryItem list \<times> localStorage" where
  "getHistory now st =
     (let items = safeParseArray (history_value st);
          valid = filter (unexpired now) items
      in (valid, if length valid \<noteq> length items then writeHistory valid st else st))"

definition getAllHistoryIncludingExpired :: "localStorage \<Rightarrow> ImageHistoryItem list" where
  "getAllHistoryIncludingExpired st = safeParseArray (history_value st)"

text \<open>The argument of \<^verbatim>\<open>saveToHistory\<close>:
  \<^verbatim>\<open>Omit<ImageHistoryItem, 'id' | 'timestamp' | 'expiresAt'>\<close>. Optional fields
  that are \<^verbatim>\<open>undefined\<close> do not reach the stored JSON. The fields carry the
  prefix \<open>h_\<close>; the keys of the stored object are the source's.\<close>

record history_input =
  h_url :: string
  h_prompt :: string
  h_negativePrompt :: "string option"
  h_providerId :: string
  h_providerName :: string
  h_modelId :: string
  h_modelName :: string
  h_width :: int
  h_height :: int
  h_steps :: int
  h_seed :: int
  h_duration :: "string option"
  h_source :: "string option"

definition opt_field :: "string \<Rightarrow> string option \<Rightarrow> (string \<times> json) list" where
  "opt_field k v = (case v of None \<Rightarrow> [] | Some s \<Rightarrow> [(k, JStr s)])"

definition item_fields :: "history_input \<Rightarrow> (string \<times> json) list" where
  "item_fields item =
     [(''url'', JStr (h_url item)), (''prompt'', JStr (h_prompt item))]
     @ opt_field ''negativePrompt'' (h_negativePrompt item)
     @ [(''providerId'', JStr (h_providerId item)),
        (''providerName'', JStr (h_providerName item)),
        (''modelId'', JStr (h_modelId item)),
        (''modelName'', JStr (h_modelName item)),
        (''width'', JNum (h_width item)),
        (''height'', JNum (h_height item)),
        (''steps'', JNum (h_steps item)),
        (''seed'', JNum (h_seed item))]
     @ opt_field ''duration'' (h_duration item)
     @ opt_field ''source'' (h_source item)"

text \<open>\<^verbatim>\<open>{ ...item, id: generateId(), timestamp: now, expiresAt: now + HISTORY_TTL_MS }\<close>:
  a key already present keeps its place and takes the new value, a new key goes
  to the end.\<close>

definition new_entry :: "id_source \<Rightarrow> int \<Rightarrow> history_input \<Rightarrow> ImageHistoryItem" where
  "new_entry src now item =
     JObj (AList.update ''expiresAt'' (JNum (now + HISTORY_TTL_MS))
            (AList.update ''timestamp'' (JNum now)
              (AList.update ''id'' (JStr (generateId src)) (item_fields item))))"

text \<open>\<^verbatim>\<open>saveToHistory\<close>; \<open>now\<close> is its own reading of the clock, \<open>now'\<close> the
  later one that \<^verbatim>\<open>getHistory\<close> takes inside it.\<close>

definition saveToHistory ::
  "id_source \<Rightarrow> int \<Rightarrow> int \<Rightarrow> history_input \<Rightarrow> localStorage \<Rightarrow> string \<times> localStorage" where
  "saveToHistory src now now' item st =
     (let entry = new_entry src now item;
          (prev, st1) = getHistory now' st;
          next = take MAX_ITEMS (entry # prev)
      in (generateId src, writeHistory next st1))"

text \<open>\<^verbatim>\<open>i.id === id\<close>\<close>

definition has_id :: "string \<Rightarrow> ImageHistoryItem \<Rightarrow> bool" where
  "has_id hid i = (jprop i ''id'' = Some (JStr hid))"

definition getHistoryById :: "string \<Rightarrow> localStorage \<Rightarrow> ImageHistoryItem option" where
  "getHistoryById hid st = find (has_id hid) (getAllHistoryIncludingExpired st)"

definition deleteHistoryItem :: "string \<Rightarrow> localStorage \<Rightarrow> localStorage" where
  "deleteHistoryItem hid st =
     writeHistory (filter (\<lambda>i. \<not> has_id hid i) (getAllHistoryIncludingExpired st)) st"

text \<open>\<^verbatim>\<open>clearExpiredHistory\<close> returns how many entries it dropped.\<close>

definition clearExpiredHistory :: "int \<Rightarrow> localStorage \<Rightarrow> nat \<times> localStorage" where
  "clearExpiredHistory now st =
     (let items = getAllHistoryIncludingExpired st;
          valid = filter (unexpired now) items
      in (length items - length valid, writeHistory valid st))"

definition clearAllHistory :: "localStorage \<Rightarrow> localStorage" where
  "clearAllHistory st = st\<lparr>history_value := None\<rparr>"

section \<open>The backend as the browser sees it\<close>

text \<open>
  Every call goes through \<^verbatim>\<open>fetch\<close>. A request is recorded by its endpoint, its
  authentication header (name and value, when one is set) and its JSON body.
\<close>

record generate_body =
  req_provider :: string
  req_model :: string
  req_prompt :: string
  req_negativePrompt :: "string option"
  req_width :: int
  req_height :: int
  req_steps :: "int option"
  req_seed :: "int option"

datatype request_body =
    GenerateBody generate_body
  | UpscaleBody string int

record http_request =
  endpoint :: string
  auth_header :: "(string \<times> string) option"
  body :: request_body

text \<open>\<^verbatim>\<open>ImageDetails\<close> of \<^verbatim>\<open>@z-image/shared\<close>, with the fields the client reads
  and writes.\<close>

record ImageDetails =
  img_url :: string
  img_provider :: string
  img_model :: string
  img_dimensions :: string
  img_duration :: string
  img_seed :: int
  img_steps :: int
  img_prompt :: string
  img_negativePrompt :: "string option"

text \<open>\<^verbatim>\<open>ApiErrorResponse['details']\<close>\<close>

record error_details =
  det_provider :: "string option"
  det_retryAfter :: "int option"
  det_upstream :: "string option"

text \<open>
  A JSON object in a response body, through the properties any caller reads:
  \<^verbatim>\<open>error\<close>, \<^verbatim>\<open>code\<close> and \<^verbatim>\<open>details\<close> of \<^verbatim>\<open>ApiErrorResponse\<close>,
  \<^verbatim>\<open>imageDetails\<close> of the generation response, \<^verbatim>\<open>url\<close> of
  \<^verbatim>\<open>UpscaleResponse\<close>. A property is taken to have its declared type when it is
  there at all.
\<close>

record api_json =
  j_error :: "string option"
  j_code :: "string option"
  j_details :: "error_details option"
  j_imageDetails :: "ImageDetails option"
  j_url :: "string option"

text \<open>What \<^verbatim>\<open>JSON.parse\<close> makes of a body: \<^verbatim>\<open>null\<close> (a property read on
  it throws), another value that is not an object (every property read gives
  \<^verbatim>\<open>undefined\<close>), or an object.\<close>

datatype json_data = DNull | DScalar | DObject api_json

text \<open>A body is text. \<open>NotJson text msg\<close> is a body that \<^verbatim>\<open>JSON.parse\<close>
  rejects, the empty body included; \<open>msg\<close> is the message of the
  \<^verbatim>\<open>SyntaxError\<close> it raises.\<close>

datatype response_body = NotJson string string | Json json_data

record http_response =
  resp_ok :: bool
  resp_status :: nat
  resp_body :: response_body

text \<open>\<^verbatim>\<open>fetch\<close> rejects (an \<^verbatim>\<open>Error\<close> with a message) or resolves.\<close>

datatype fetch_result = NetworkError string | Response http_response

text \<open>\<^verbatim>\<open>PROVIDER_CONFIGS[provider]\<close> of \<^verbatim>\<open>@/lib/constants\<close>: the table is not
  part of the sources at hand and is a parameter wherever it is read.\<close>

record provider_config =
  cfg_name :: string
  cfg_authHeader :: string
  cfg_requiresAuth :: bool

text \<open>\<^verbatim>\<open>s || d\<close> on an optional string.\<close>

definition or_else :: "string option \<Rightarrow> string \<Rightarrow> string" where
  "or_else s d = (case s of None \<Rightarrow> d | Some x \<Rightarrow> if x = [] then d else x)"

section \<open>ImageNode.tsx\<close>

text \<open>A thrown \<^verbatim>\<open>Error\<close>, with the \<^verbatim>\<open>status\<close> that
  \<^verbatim>\<open>generateImageApiSingle\<close> attaches to an HTTP failure.\<close>

record js_error =
  err_message :: string
  err_status :: "nat option"

definition Error :: "string \<Rightarrow> js_error" where
  "Error msg = \<lparr>err_message = msg, err_status = None\<rparr>"

text \<open>
  The state a run works on: per provider, the secrets marked exhausted; and the
  requests sent so far, in order. The network is a parameter \<open>net\<close>: the outcome
  of the \<open>k\<close>-th request ever sent, given the request.
\<close>

record world =
  exhausted :: "string \<Rightarrow> string set"
  calls :: "http_request list"

type_synonym network = "nat \<Rightarrow> http_request \<Rightarrow> fetch_result"

definition MAX_RETRY_ATTEMPTS :: nat where
  "MAX_RETRY_ATTEMPTS = 10"

text \<open>The request of \<^verbatim>\<open>generateImageApiSingle\<close>: the header is set for a
  truthy token only (\<^verbatim>\<open>...(token && { [providerConfig.authHeader]: token })\<close>),
  and \<^verbatim>\<open>steps\<close> is always 9.\<close>

definition single_request ::
  "(string \<Rightarrow> provider_config) \<Rightarrow> string \<Rightarrow> int \<Rightarrow> int \<Rightarrow> string \<Rightarrow> string option \<Rightarrow> string \<Rightarrow> int
     \<Rightarrow> http_request" where
  "single_request PROVIDER_CONFIGS prompt width height provider token model seed =
     \<lparr>endpoint = ''/api/generate'',
      auth_header =
        (case token of
           None \<Rightarrow> None
         | Some t \<Rightarrow> if t = [] then None else Some (cfg_authHeader (PROVIDER_CONFIGS provider), t)),
      body = GenerateBody
        \<lparr>req_provider = provider, req_model = model, req_prompt = prompt,
         req_negativePrompt = None, req_width = width, req_height = height,
         req_steps = Some 9, req_seed = Some seed\<rparr>\<rparr>"

text \<open>What \<^verbatim>\<open>generateImageApiSingle\<close> makes of the outcome of its
  \<^verbatim>\<open>fetch\<close>: the image details, or the error it throws.\<close>

definition single_outcome :: "fetch_result \<Rightarrow> js_error + ImageDetails" where
  "single_outcome res =
     (case res of
        NetworkError msg \<Rightarrow> Inl (Error msg)
      | Response r \<Rightarrow>
          (case resp_body r of
             NotJson text msg \<Rightarrow>
               if text = [] then Inl (Error ''Empty response from server'')
               else Inl (Error (''Invalid response: '' @ take 100 text))
           | Json DNull \<Rightarrow>
               if \<not> resp_ok r then Inl (Error ''Cannot read properties of null (reading 'error')'')
               else Inl (Error ''Cannot read properties of null (reading 'imageDetails')'')
           | Json DScalar \<Rightarrow>
               if \<not> resp_ok r
               then Inl \<lparr>err_message = ''Failed to generate'', err_status = Some (resp_status r)\<rparr>
               else Inl (Error ''No image details returned'')
           | Json (DObject data) \<Rightarrow>
               if \<not> resp_ok r
               then Inl \<lparr>err_message = or_else (j_error data) ''Failed to generate'',
                         err_status = Some (resp_status r)\<rparr>
               else (case j_imageDetails data of
                       None \<Rightarrow> Inl (Error ''No image details returned'')
                     | Some details \<Rightarrow> Inr details)))"

definition generateImageApiSingle ::
  "network \<Rightarrow> (string \<Rightarrow> provider_config) \<Rightarrow> string \<Rightarrow> int \<Rightarrow> int \<Rightarrow> string \<Rightarrow> string option
     \<Rightarrow> string \<Rightarrow> int \<Rightarrow> world \<Rightarrow> (js_error + ImageDetails) \<times> world" where
  "generateImageApiSingle net PROVIDER_CONFIGS prompt width height provider token model seed w =
     (let req = single_request PROVIDER_CONFIGS prompt width height provider token model seed
      in (single_outcome (net (length (calls w)) req), w\<lparr>calls := calls w @ [req]\<rparr>))"

text \<open>
  Modelled from the spec: \<^verbatim>\<open>getNextAvailableToken\<close> and \<^verbatim>\<open>markTokenExhausted\<close>
  of \<^verbatim>\<open>@/lib/tokenRotation\<close>, which is not part of the sources at hand. The
  spec's TokenPool: \<^verbatim>\<open>nextAvailable\<close> "returns the first secret in the given
  order whose Credential is not marked exhausted; returns none if all are
  exhausted"; \<^verbatim>\<open>markExhausted\<close> "idempotently marks the credential exhausted",
  in "a set/mapping keyed by secret"; "pools are independent per provider".
\<close>

definition getNextAvailableToken :: "world \<Rightarrow> string \<Rightarrow> string list \<Rightarrow> string option" where
  "getNextAvailableToken w provider allTokens =
     find (\<lambda>t. t \<notin> exhausted w provider) allTokens"

definition markTokenExhausted :: "string \<Rightarrow> string \<Rightarrow> world \<Rightarrow> world" where
  "markTokenExhausted provider token w =
     w\<lparr>exhausted := (exhausted w)(provider := insert token (exhausted w provider))\<rparr>"

text \<open>
  Modelled from the spec: \<^verbatim>\<open>isQuotaError\<close> of \<^verbatim>\<open>@/lib/tokenRotation\<close>, not
  part of the sources at hand. The spec's ErrorClassifier labels a failed call
  \<^verbatim>\<open>quota | auth | transient | fatal\<close>; how it tells them apart is a
  parameter \<open>classify\<close>, and \<^verbatim>\<open>isQuotaError\<close> holds of the errors labelled
  \<^verbatim>\<open>quota\<close>.
\<close>

datatype error_class = quota | auth | transient | fatal

definition isQuotaError :: "(js_error \<Rightarrow> error_class) \<Rightarrow> js_error \<Rightarrow> bool" where
  "isQuotaError classify err = (classify err = quota)"

text \<open>
  The token rotation loop of \<^verbatim>\<open>generateImageWithRotation\<close>. \<open>call\<close> is
  \<^verbatim>\<open>generateImageApiSingle\<close> with every argument but the token fixed.
  \<^verbatim>\<open>!token\<close> holds of \<^verbatim>\<open>null\<close> and of the empty string.
\<close>

function rotation_loop ::
  "(string option \<Rightarrow> world \<Rightarrow> (js_error + ImageDetails) \<times> world) \<Rightarrow> (js_error \<Rightarrow> error_class)
     \<Rightarrow> string \<Rightarrow> string list \<Rightarrow> bool \<Rightarrow> nat \<Rightarrow> world \<Rightarrow> (js_error + ImageDetails) \<times> world" where
  "rotation_loop call classify provider allTokens requiresAuth attempts w =
     (if attempts < MAX_RETRY_ATTEMPTS then
        (case getNextAvailableToken w provider allTokens of
           None \<Rightarrow>
             if \<not> requiresAuth then call None w
             else (Inl (Error ''All API tokens exhausted. Quota will reset tomorrow.''), w)
         | Some token \<Rightarrow>
             if token = [] then
               (if \<not> requiresAuth then call None w
                else (Inl (Error ''All API tokens exhausted. Quota will reset tomorrow.''), w))
             else
               (case call (Some token) w of
                  (Inr details, w') \<Rightarrow> (Inr details, w')
                | (Inl err, w') \<Rightarrow>
                    if isQuotaError classify err
                    then rotation_loop call classify provider allTokens requiresAuth
                           (attempts + 1) (markTokenExhausted provider token w')
                    else (Inl err, w')))
      else (Inl (Error ''Maximum retry attempts reached''), w))"
  by pat_completeness auto
termination
  by (relation "measure (\<lambda>(call, classify, provider, allTokens, requiresAuth, attempts, w).
        MAX_RETRY_ATTEMPTS - attempts)") auto

declare rotation_loop.simps [simp del]

text \<open>A call that failed with an error labelled \<^verbatim>\<open>quota\<close>: the \<open>k\<close>-th request
  sent, \<open>rq\<close>, as \<^verbatim>\<open>generateImageApiSingle\<close> reads its outcome.\<close>

definition quota_failure :: "network \<Rightarrow> (js_error \<Rightarrow> error_class) \<Rightarrow> nat \<Rightarrow> http_request \<Rightarrow> bool" where
  "quota_failure net classify k rq =
     (case single_outcome (net k rq) of Inl e \<Rightarrow> isQuotaError classify e | Inr d \<Rightarrow> False)"

definition generateImageWithRotation ::
  "network \<Rightarrow> (js_error \<Rightarrow> error_class) \<Rightarrow> (string \<Rightarrow> provider_config) \<Rightarrow> string \<Rightarrow> int \<Rightarrow> int
     \<Rightarrow> string \<Rightarrow> string list \<Rightarrow> string \<Rightarrow> int \<Rightarrow> bool \<Rightarrow> world \<Rightarrow> (js_error + ImageDetails) \<times> world" where
  "generateImageWithRotation net classify PROVIDER_CONFIGS prompt width height provider allTokens
       model seed requiresAuth w =
     (if allTokens = [] then
        (if requiresAuth then (Inl (Error ''No API Token''), w)
         else generateImageApiSingle net PROVIDER_CONFIGS prompt width height provider None model seed w)
      else
        rotation_loop
          (\<lambda>token. generateImageApiSingle net PROVIDER_CONFIGS prompt width height provider token model seed)
          classify provider allTokens requiresAuth 0 w)"

text \<open>
  The mount effect of \<^verbatim>\<open>ImageNodeComponent\<close>, up to the start of its
  asynchronous block. \<open>imageUrl\<close> and \<open>isLoading\<close> come from the node's data,
  \<open>generatingRef\<close> is the component's own flag. The result says whether the
  block, and with it one run of \<^verbatim>\<open>generateImageWithRotation\<close>, was started.
\<close>

record image_node =
  hasHydrated :: bool
  imageUrl :: "string option"
  isLoading :: bool
  generatingRef :: bool

definition generate_effect :: "image_node \<Rightarrow> image_node \<times> bool" where
  "generate_effect n =
     (if \<not> hasHydrated n then (n, False)
      else if or_else (imageUrl n) [] \<noteq> [] \<or> \<not> isLoading n then (n, False)
      else if generatingRef n then (n, False)
      else (n\<lparr>generatingRef := True\<rparr>, True))"

text \<open>How many runs \<open>k\<close> firings of the effect in a row start.\<close>

fun starts_after :: "nat \<Rightarrow> image_node \<Rightarrow> nat" where
  "starts_after 0 n = 0"
| "starts_after (Suc k) n =
     (case generate_effect n of
        (n', started) \<Rightarrow> (if started then 1 else 0) + starts_after k n')"

section \<open>api.ts\<close>

text \<open>\<^verbatim>\<open>ApiErrorInfo\<close> and \<^verbatim>\<open>ApiResponse<T>\<close>. The data of a successful
  response is the parsed body, cast to the expected type without a check.\<close>

record ApiErrorInfo =
  info_message :: string
  info_code :: "string option"
  info_details :: "error_details option"

datatype ApiResponse = Success json_data | Failure string "ApiErrorInfo option"

definition parseErrorResponse :: "json_data \<Rightarrow> ApiErrorInfo" where
  "parseErrorResponse data =
     (case data of
        DObject errorData \<Rightarrow>
          \<lparr>info_message = or_else (j_error errorData) ''Unknown error'',
           info_code = j_code errorData,
           info_details = j_details errorData\<rparr>
      | _ \<Rightarrow> \<lparr>info_message = ''Unknown error'', info_code = None, info_details = None\<rparr>)"

text \<open>\<^verbatim>\<open>details?.provider\<close> and \<^verbatim>\<open>details?.upstream\<close>\<close>

definition details_field ::
  "(error_details \<Rightarrow> string option) \<Rightarrow> error_details option \<Rightarrow> string option" where
  "details_field f details = (case details of None \<Rightarrow> None | Some d \<Rightarrow> f d)"

text \<open>\<^verbatim>\<open>details?.retryAfter ? `${details.retryAfter} seconds` : 'a moment'\<close>\<close>

definition retry_text :: "error_details option \<Rightarrow> string" where
  "retry_text details =
     (case details of
        None \<Rightarrow> ''a moment''
      | Some d \<Rightarrow>
          (case det_retryAfter d of
             None \<Rightarrow> ''a moment''
           | Some n \<Rightarrow> if n = 0 then ''a moment'' else show_int n @ '' seconds''))"

definition getErrorMessage :: "ApiErrorInfo \<Rightarrow> string" where
  "getErrorMessage errorInfo =
     (let code = info_code errorInfo;
          message = info_message errorInfo;
          details = info_details errorInfo;
          provider = details_field det_provider details
      in if code = Some ''AUTH_REQUIRED'' then
           ''Please configure your '' @ or_else provider ''API'' @ '' token first''
         else if code = Some ''AUTH_INVALID'' then
           ''Invalid '' @ or_else provider ''API'' @ '' token. Please check your token and try again.''
         else if code = Some ''AUTH_EXPIRED'' then
           ''Your '' @ or_else provider ''API'' @ '' token has expired. Please update it.''
         else if code = Some ''RATE_LIMITED'' then
           ''Too many requests. Please wait '' @ retry_text details @ '' and try again.''
         else if code = Some ''QUOTA_EXCEEDED'' then
           ''API quota exceeded for '' @ or_else provider ''this provider'' @ ''. Please check your account.''
         else if code = Some ''INVALID_PROMPT'' then
           or_else (Some message) ''Invalid prompt. Please check your input.''
         else if code = Some ''PROVIDER_ERROR'' \<or> code = Some ''UPSTREAM_ERROR'' then
           or_else (details_field det_upstream details)
             (or_else (Some message) ''Provider service error. Please try again.'')
         else if code = Some ''TIMEOUT'' then
           ''Request timed out. '' @ or_else provider ''The service'' @ '' may be busy. Please try again.''
         else or_else (Some message) ''An error occurred. Please try again.'')"

text \<open>
  What \<^verbatim>\<open>generateImage\<close>, \<^verbatim>\<open>upscaleImage\<close>, \<^verbatim>\<open>optimizePrompt\<close> and
  \<^verbatim>\<open>translatePrompt\<close> all do with the outcome of their \<^verbatim>\<open>fetch\<close>:
  \<^verbatim>\<open>response.json()\<close> first, then \<^verbatim>\<open>response.ok\<close>; whatever is thrown on the
  way is caught and returned as a failure with the error's message.
\<close>

definition read_response :: "fetch_result \<Rightarrow> ApiResponse" where
  "read_response res =
     (case res of
        NetworkError msg \<Rightarrow> Failure msg None
      | Response r \<Rightarrow>
          (case resp_body r of
             NotJson text msg \<Rightarrow> Failure msg None
           | Json data \<Rightarrow>
               if \<not> resp_ok r
               then (let errorInfo = parseErrorResponse data
                     in Failure (getErrorMessage errorInfo) (Some errorInfo))
               else Success data))"

text \<open>
  A token argument as it arrives at run time. \<^verbatim>\<open>api.ts\<close> declares a string;
  the hook hands over an array of strings or \<^verbatim>\<open>undefined\<close>. An array is truthy
  even when empty, and as a header value it is its elements joined by commas.
\<close>

datatype token_arg = Undefined | One string | Many "string list"

fun truthy :: "token_arg \<Rightarrow> bool" where
  "truthy Undefined = False"
| "truthy (One s) = (s \<noteq> [])"
| "truthy (Many ts) = True"

fun join_commas :: "string list \<Rightarrow> string" where
  "join_commas [] = []"
| "join_commas [t] = t"
| "join_commas (t # ts) = t @ '','' @ join_commas ts"

fun token_text :: "token_arg \<Rightarrow> string" where
  "token_text Undefined = ''undefined''"
| "token_text (One s) = s"
| "token_text (Many ts) = join_commas ts"

record GenerateOptions =
  o_provider :: string
  o_prompt :: string
  o_negativePrompt :: "string option"
  o_width :: int
  o_height :: int
  o_steps :: "int option"
  o_seed :: "int option"
  o_model :: "string option"

text \<open>The request of \<^verbatim>\<open>generateImage(options, auth)\<close>; \<open>token\<close> is
  \<^verbatim>\<open>auth.token\<close>.\<close>

definition generate_request ::
  "(string \<Rightarrow> provider_config) \<Rightarrow> GenerateOptions \<Rightarrow> token_arg \<Rightarrow> http_request" where
  "generate_request PROVIDER_CONFIGS options token =
     \<lparr>endpoint = ''/api/generate'',
      auth_header =
        (if truthy token
         then Some (cfg_authHeader (PROVIDER_CONFIGS (o_provider options)), token_text token)
         else None),
      body = GenerateBody
        \<lparr>req_provider = o_provider options,
         req_model = or_else (o_model options) ''z-image-turbo'',
         req_prompt = o_prompt options,
         req_negativePrompt = o_negativePrompt options,
         req_width = o_width options, req_height = o_height options,
         req_steps = o_steps options, req_seed = o_seed options\<rparr>\<rparr>"

text \<open>The request of \<^verbatim>\<open>upscaleImage(url, scale, hfToken)\<close>\<close>

definition upscale_request :: "string \<Rightarrow> int \<Rightarrow> token_arg \<Rightarrow> http_request" where
  "upscale_request image_url scale hfToken =
     \<lparr>endpoint = ''/api/upscale'',
      auth_header = (if truthy hfToken then Some (''X-HF-Token'', token_text hfToken) else None),
      body = UpscaleBody image_url scale\<rparr>"

section \<open>The hook useImageGenerator\<close>

text \<open>
  The React state \<^verbatim>\<open>handleGenerate\<close> reads (prefix \<open>in_\<close>) and the state it
  writes. \<open>toasts\<close> lists the notifications shown, \<open>requests\<close> the requests
  sent, \<open>storage\<close> is the browser store of the history.
\<close>

record generator_inputs =
  in_tokens :: "string \<Rightarrow> string"
  in_provider :: string
  in_model :: string
  in_prompt :: string
  in_negativePrompt :: string
  in_width :: int
  in_height :: int
  in_steps :: int
  in_upscale8k :: bool

text \<open>\<^verbatim>\<open>ImageDetails & { historyId?: string; generatedAt?: number }\<close>\<close>

record ImageDetailsWithMeta =
  details :: ImageDetails
  meta_historyId :: "string option"
  meta_generatedAt :: "int option"

datatype toast = ToastError string | ToastSuccess string

record hook_state =
  loading :: bool
  imageDetails :: "ImageDetailsWithMeta option"
  historyId :: "string option"
  generatedAt :: "int option"
  isUpscaled :: bool
  isBlurred :: bool
  showInfo :: bool
  status :: string
  toasts :: "toast list"
  requests :: "http_request list"
  storage :: localStorage

text \<open>
  What one run of \<^verbatim>\<open>handleGenerate\<close> meets outside: the outcome of its
  generation request and of its upscale request, its three clock readings (in
  \<^verbatim>\<open>handleGenerate\<close>, in \<^verbatim>\<open>saveToHistory\<close>, in \<^verbatim>\<open>getHistory\<close>), and the
  source of the history id.
\<close>

record generate_env =
  generate_reply :: fetch_result
  upscale_reply :: fetch_result
  clock_generated :: int
  clock_saved :: int
  clock_listed :: int
  ids :: id_source

definition addStatus :: "string \<Rightarrow> hook_state \<Rightarrow> hook_state" where
  "addStatus msg st = st\<lparr>status := status st @ [CHR 0x0A] @ msg\<rparr>"

definition show_toast :: "toast \<Rightarrow> hook_state \<Rightarrow> hook_state" where
  "show_toast t st = st\<lparr>toasts := toasts st @ [t]\<rparr>"

text \<open>
  \<^verbatim>\<open>handleGenerate\<close> up to its first \<^verbatim>\<open>await\<close>: the check of the tokens, the
  reset of the state, and the request that \<^verbatim>\<open>generateImage\<close> sends before it
  waits. The object passed as \<^verbatim>\<open>auth\<close> has a property \<^verbatim>\<open>tokens\<close> and none
  named \<^verbatim>\<open>token\<close>, so \<^verbatim>\<open>auth.token\<close> is \<^verbatim>\<open>undefined\<close>. The flag returned
  says whether the request was sent. \<^verbatim>\<open>parseTokens\<close> of
  \<^verbatim>\<open>@/lib/tokenRotation\<close> is not part of the sources at hand and is a parameter.
\<close>

definition handleGenerate_begin ::
  "(string \<Rightarrow> provider_config) \<Rightarrow> (string \<Rightarrow> string list) \<Rightarrow> generator_inputs \<Rightarrow> hook_state
     \<Rightarrow> hook_state \<times> bool" where
  "handleGenerate_begin PROVIDER_CONFIGS parseTokens inp st =
     (let providerConfig = PROVIDER_CONFIGS (in_provider inp);
          providerTokens = parseTokens (in_tokens inp (in_provider inp))
      in if cfg_requiresAuth providerConfig \<and> providerTokens = [] then
           (show_toast (ToastError (''Please configure your '' @ cfg_name providerConfig
                                      @ '' token first'')) st, False)
         else
           (let st1 = st\<lparr>loading := True, imageDetails := None, historyId := None,
                          generatedAt := None, isUpscaled := False, isBlurred := False,
                          showInfo := False, status := ''Initializing...''\<rparr>;
                st2 = addStatus (''Sending request to '' @ cfg_name providerConfig @ ''...'') st1;
                options = \<lparr>o_provider = in_provider inp, o_prompt = in_prompt inp,
                           o_negativePrompt = Some (in_negativePrompt inp),
                           o_width = in_width inp, o_height = in_height inp,
                           o_steps = Some (in_steps inp), o_seed = None,
                           o_model = Some (in_model inp)\<rparr>
            in (st2\<lparr>requests := requests st2 @ [generate_request PROVIDER_CONFIGS options Undefined]\<rparr>,
                True)))"

text \<open>The \<^verbatim>\<open>catch\<close> and \<^verbatim>\<open>finally\<close> of \<^verbatim>\<open>handleGenerate\<close>, for an error
  with message \<open>msg\<close>.\<close>

definition generate_failed :: "string \<Rightarrow> hook_state \<Rightarrow> hook_state" where
  "generate_failed msg st =
     (show_toast (ToastError msg) (addStatus (''Error: '' @ msg) st))\<lparr>loading := False\<rparr>"

text \<open>
  The automatic upscale of \<^verbatim>\<open>handleGenerate\<close>. It returns the details to go
  on with, or the message of the \<^verbatim>\<open>TypeError\<close> that reading \<^verbatim>\<open>url\<close> from a
  \<^verbatim>\<open>null\<close> body throws.
\<close>

definition auto_upscale ::
  "(string \<Rightarrow> string list) \<Rightarrow> generate_env \<Rightarrow> generator_inputs \<Rightarrow> ImageDetails \<Rightarrow> hook_state
     \<Rightarrow> (string + ImageDetails) \<times> hook_state" where
  "auto_upscale parseTokens env inp d st =
     (let st1 = addStatus ''Upscaling to 8K...'' st;
          hfTokens = parseTokens (in_tokens inp ''huggingface'');
          st2 = st1\<lparr>requests := requests st1 @
                  [upscale_request (img_url d) 4 (if hfTokens \<noteq> [] then Many hfTokens else Undefined)]\<rparr>;
          kept = (\<lambda>why. (Inr d, show_toast (ToastError ''8K upscale failed, showing original image'')
                                   (addStatus (''8K upscale failed: '' @ why) st2)))
      in case read_response (upscale_reply env) of
           Failure err info \<Rightarrow> kept err
         | Success DNull \<Rightarrow> (Inl ''Cannot read properties of null (reading 'url')'', st2)
         | Success DScalar \<Rightarrow> kept ''No URL''
         | Success (DObject data) \<Rightarrow>
             if or_else (j_url data) [] \<noteq> []
             then (Inr (d\<lparr>img_url := or_else (j_url data) []\<rparr>), addStatus ''8K upscale complete!'' st2)
             else kept ''No URL'')"

text \<open>
  The outcomes of \<^verbatim>\<open>upscaleImage\<close> that \<^verbatim>\<open>handleGenerate\<close> reports as
  "8K upscale failed", with the reason it logs: a failure, with its message,
  and a success whose data has no \<^verbatim>\<open>url\<close>, with "No URL". A success whose
  data is \<^verbatim>\<open>null\<close> is not among them, and neither is a success with a
  \<^verbatim>\<open>url\<close>.
\<close>

definition upscale_failure_reason :: "ApiResponse \<Rightarrow> string option" where
  "upscale_failure_reason upResult =
     (case upResult of
        Failure err info \<Rightarrow> Some err
      | Success DNull \<Rightarrow> None
      | Success DScalar \<Rightarrow> Some ''No URL''
      | Success (DObject data) \<Rightarrow>
          if or_else (j_url data) [] = [] then Some ''No URL'' else None)"

text \<open>\<^verbatim>\<open>handleGenerate\<close> from the answer to its generation request on.\<close>

definition handleGenerate_resume ::
  "(string \<Rightarrow> string list) \<Rightarrow> generate_env \<Rightarrow> generator_inputs \<Rightarrow> hook_state \<Rightarrow> hook_state" where
  "handleGenerate_resume parseTokens env inp st =
     (case read_response (generate_reply env) of
        Failure err info \<Rightarrow> generate_failed err st
      | Success DNull \<Rightarrow>
          generate_failed ''Cannot read properties of null (reading 'imageDetails')'' st
      | Success DScalar \<Rightarrow> generate_failed ''No image returned'' st
      | Success (DObject data) \<Rightarrow>
          (case j_imageDetails data of
             None \<Rightarrow> generate_failed ''No image returned'' st
           | Some d \<Rightarrow>
               if img_url d = [] then generate_failed ''No image returned'' st
               else
                 (let st1 = addStatus (''Image generated in '' @ img_duration d @ ''!'') st;
                      (upscaled, st2) =
                        (if in_upscale8k inp \<and> take 4 (img_url d) = ''http''
                         then auto_upscale parseTokens env inp d st1
                         else (Inr d, st1))
                  in case upscaled of
                       Inl msg \<Rightarrow> generate_failed msg st2
                     | Inr d' \<Rightarrow>
                         (let now = clock_generated env;
                              (newHistoryId, store) =
                                saveToHistory (ids env) (clock_saved env) (clock_listed env)
                                  \<lparr>h_url = img_url d', h_prompt = img_prompt d',
                                   h_negativePrompt = img_negativePrompt d',
                                   h_providerId = in_provider inp,
                                   h_providerName = img_provider d',
                                   h_modelId = in_model inp, h_modelName = img_model d',
                                   h_width = in_width inp, h_height = in_height inp,
                                   h_steps = img_steps d', h_seed = img_seed d',
                                   h_duration = Some (img_duration d'),
                                   h_source = Some ''home''\<rparr>
                                  (storage st2);
                              st3 = st2\<lparr>storage := store, historyId := Some newHistoryId,
                                         generatedAt := Some now,
                                         imageDetails := Some \<lparr>details = d',
                                           meta_historyId = Some newHistoryId,
                                           meta_generatedAt = Some now\<rparr>\<rparr>
                          in (show_toast (ToastSuccess ''Image generated!'') st3)\<lparr>loading := False\<rparr>))))"

definition handleGenerate ::
  "(string \<Rightarrow> provider_config) \<Rightarrow> (string \<Rightarrow> string list) \<Rightarrow> generate_env \<Rightarrow> generator_inputs
     \<Rightarrow> hook_state \<Rightarrow> hook_state" where
  "handleGenerate PROVIDER_CONFIGS parseTokens env inp st =
     (case handleGenerate_begin PROVIDER_CONFIGS parseTokens inp st of
        (st1, sent) \<Rightarrow> if sent then handleGenerate_resume parseTokens env inp st1 else st1)"

section \<open>Sample data\<close>

text \<open>Concrete stores, networks and hook states, on which the theorems below
  are instantiated.\<close>

definition item_demo :: history_input where
  "item_demo = \<lparr>h_url = ''https://img.example/1.png'', h_prompt = ''a cat'',
     h_negativePrompt = None, h_providerId = ''huggingface'', h_providerName = ''HuggingFace'',
     h_modelId = ''z-image-turbo'', h_modelName = ''Z-Image Turbo'', h_width = 1024,
     h_height = 1024, h_steps = 9, h_seed = 42, h_duration = Some ''3.2s'',
     h_source = Some ''home''\<rparr>"

definition ids_demo :: id_source where
  "ids_demo = \<lparr>randomUUID = Some ''6f1c'', id_clock = 100, random_hex = ''9ab''\<rparr>"

definition recent_demo :: ImageHistoryItem where
  "recent_demo = JObj [(''id'', JStr ''recent''), (''expiresAt'', JNum 500)]"

definition stale_demo :: ImageHistoryItem where
  "stale_demo = JObj [(''id'', JStr ''stale''), (''expiresAt'', JNum 90)]"

definition legacy_demo :: ImageHistoryItem where
  "legacy_demo = JObj [(''id'', JStr ''legacy'')]"

definition st_demo :: localStorage where
  "st_demo = \<lparr>history_value = Some (Doc (JArr [recent_demo, stale_demo, legacy_demo])),
     accepts = (\<lambda>v. True)\<rparr>"

text \<open>A store at capacity: 199 live entries and, oldest of all, one without
  \<^verbatim>\<open>expiresAt\<close>.\<close>

definition st_full :: localStorage where
  "st_full = \<lparr>history_value = Some (Doc (JArr (replicate 199 recent_demo @ [legacy_demo]))),
     accepts = (\<lambda>v. True)\<rparr>"


definition cfg_demo :: "string \<Rightarrow> provider_config" where
  "cfg_demo p = \<lparr>cfg_name = ''HuggingFace'', cfg_authHeader = ''X-HF-Token'',
     cfg_requiresAuth = False\<rparr>"

definition cfg_strict :: "string \<Rightarrow> provider_config" where
  "cfg_strict p = \<lparr>cfg_name = ''Gitee AI'', cfg_authHeader = ''X-API-Key'',
     cfg_requiresAuth = True\<rparr>"

text \<open>A classifier by HTTP status: 429 is \<^verbatim>\<open>quota\<close>, 401 is \<^verbatim>\<open>auth\<close>.\<close>

definition classify_demo :: "js_error \<Rightarrow> error_class" where
  "classify_demo e =
     (if err_status e = Some 429 then quota
      else if err_status e = Some 401 then auth
      else fatal)"

definition reply_demo :: "nat \<Rightarrow> fetch_result" where
  "reply_demo code = Response \<lparr>resp_ok = False, resp_status = code,
      resp_body = Json (DObject \<lparr>j_error = Some ''refused'', j_code = None, j_details = None,
        j_imageDetails = None, j_url = None\<rparr>)\<rparr>"

text \<open>A backend that answers every request with 429, and one that answers the
  first request with 429 and every later one with 401.\<close>

definition net_quota :: network where
  "net_quota k rq = reply_demo 429"

definition net_rejecting :: network where
  "net_rejecting k rq = reply_demo (if k = 0 then 429 else 401)"

definition w_demo :: world where
  "w_demo = \<lparr>exhausted = (\<lambda>p. {}), calls = []\<rparr>"

definition details_demo :: ImageDetails where
  "details_demo = \<lparr>img_url = ''https://img.example/1.png'', img_provider = ''HuggingFace'',
     img_model = ''Z-Image Turbo'', img_dimensions = ''1024 x 1024'', img_duration = ''3.2s'',
     img_seed = 42, img_steps = 9, img_prompt = ''a cat'', img_negativePrompt = None\<rparr>"

definition env_demo :: generate_env where
  "env_demo = \<lparr>generate_reply = Response \<lparr>resp_ok = True, resp_status = 200,
       resp_body = Json (DObject \<lparr>j_error = None, j_code = None, j_details = None,
         j_imageDetails = Some details_demo, j_url = None\<rparr>)\<rparr>,
     upscale_reply = reply_demo 500,
     clock_generated = 1000, clock_saved = 1001, clock_listed = 1002, ids = ids_demo\<rparr>"

text \<open>The same run, but the upscale endpoint answers 200 with the body
  \<^verbatim>\<open>null\<close>.\<close>

definition env_null :: generate_env where
  "env_null = env_demo\<lparr>upscale_reply :=
     Response \<lparr>resp_ok = True, resp_status = 200, resp_body = Json DNull\<rparr>\<rparr>"

definition inp_demo :: generator_inputs where
  "inp_demo = \<lparr>in_tokens = (\<lambda>p. []), in_provider = ''huggingface'', in_model = ''z-image-turbo'',
     in_prompt = ''a cat'', in_negativePrompt = [], in_width = 1024, in_height = 1024,
     in_steps = 9, in_upscale8k = True\<rparr>"

text \<open>A stand-in for \<^verbatim>\<open>parseTokens\<close>: no token for the empty text, one
  otherwise.\<close>

definition parse_demo :: "string \<Rightarrow> string list" where
  "parse_demo s = (if s = [] then [] else [s])"

definition hook_demo :: hook_state where
  "hook_demo = \<lparr>loading = False, imageDetails = None, historyId = None, generatedAt = None,
     isUpscaled = False, isBlurred = False, showInfo = False, status = ''Ready.'',
     toasts = [], requests = [],
     storage = \<lparr>history_value = None, accepts = (\<lambda>v. True)\<rparr>\<rparr>"

definition node_demo :: image_node where
  "node_demo = \<lparr>hasHydrated = True, imageUrl = None, isLoading = True, generatingRef = False\<rparr>"

section \<open>Facts about the history store\<close>

lemma safeParseArray_objects: "x \<in> set (safeParseArray v) \<Longrightarrow> is_object x"
  by (induction v rule: safeParseArray.induct) auto

lemma accepts_writeHistory: "accepts (writeHistory xs st) = accepts st"
  by (simp add: writeHistory_def)

lemma accepts_getHistory: "accepts (snd (getHistory now st)) = accepts st"
  by (simp add: getHistory_def Let_def accepts_writeHistory)

lemma getHistory_objects: "x \<in> set (fst (getHistory now st)) \<Longrightarrow> is_object x"
  by (auto simp: getHistory_def Let_def dest: safeParseArray_objects)

lemma getHistory_fst:
  "fst (getHistory now st) = filter (unexpired now) (getAllHistoryIncludingExpired st)"
  by (simp add: getHistory_def Let_def getAllHistoryIncludingExpired_def)

text \<open>What a raw read finds after a write: the new list if the store took it,
  the old content otherwise.\<close>

lemma stored_writeHistory:
  "getAllHistoryIncludingExpired (writeHistory xs st) =
     (if accepts st (Doc (JArr xs)) then filter is_object xs else getAllHistoryIncludingExpired st)"
  by (simp add: writeHistory_def getAllHistoryIncludingExpired_def)

lemma is_object_new_entry: "is_object (new_entry src now item)"
  by (simp add: new_entry_def)



lemma new_entry_id: "jprop (new_entry src now item) ''id'' = Some (JStr (generateId src))"
  by (simp add: new_entry_def update_conv')

lemma new_entry_url: "jprop (new_entry src now item) ''url'' = Some (JStr (h_url item))"
  by (simp add: new_entry_def update_conv' item_fields_def)


lemma malformed_unexpired: "\<not> is_number (jprop e ''expiresAt'') \<Longrightarrow> unexpired now e"
  by (cases "jprop e ''expiresAt''" rule: is_number.cases) (simp_all add: unexpired_def)

lemma filter_same_length: "length (filter P xs) = length xs \<Longrightarrow> filter P xs = xs"
proof (induction xs)
  case Nil
  then show ?case by simp
next
  case (Cons a xs)
  show ?case
  proof (cases "P a")
    case True
    with Cons show ?thesis by simp
  next
    case False
    have "length (filter P xs) \<le> length xs" by (rule length_filter_le)
    with Cons.prems False show ?thesis by simp
  qed
qed

lemma stored_getHistory:
  "getAllHistoryIncludingExpired (snd (getHistory now st)) =
     (if accepts st (Doc (JArr (fst (getHistory now st)))) then fst (getHistory now st)
      else getAllHistoryIncludingExpired st)"
proof -
  let ?items = "safeParseArray (history_value st)"
  let ?valid = "filter (unexpired now) ?items"
  have obj: "filter is_object ?valid = ?valid"
    by (rule filter_True) (auto dest: safeParseArray_objects)
  show ?thesis
  proof (cases "length ?valid = length ?items")
    case True
    then have "?valid = ?items" by (rule filter_same_length)
    with True show ?thesis
      by (simp add: getHistory_def Let_def getAllHistoryIncludingExpired_def)
  next
    case False
    have "getAllHistoryIncludingExpired (writeHistory ?valid st) =
        (if accepts st (Doc (JArr ?valid)) then ?valid else getAllHistoryIncludingExpired st)"
      by (simp only: stored_writeHistory obj)
    with False show ?thesis
      by (simp add: getHistory_def Let_def)
  qed
qed

lemma saveToHistory_fst: "fst (saveToHistory src now now' item st) = generateId src"
  by (simp add: saveToHistory_def Let_def split_beta)

text \<open>What a raw read finds after \<^verbatim>\<open>saveToHistory\<close>, whether or not the store
  took the final write.\<close>

lemma saveToHistory_stored_cases:
  "getAllHistoryIncludingExpired (snd (saveToHistory src now now' item st)) =
     (if accepts st (Doc (JArr (take MAX_ITEMS (new_entry src now item # fst (getHistory now' st)))))
      then take MAX_ITEMS (new_entry src now item # fst (getHistory now' st))
      else getAllHistoryIncludingExpired (snd (getHistory now' st)))"
proof -
  let ?items = "take MAX_ITEMS (new_entry src now item # fst (getHistory now' st))"
  have obj: "filter is_object ?items = ?items"
    by (rule filter_True) (auto dest!: in_set_takeD simp: is_object_new_entry getHistory_objects)
  show ?thesis
    by (simp only: saveToHistory_def Let_def split_beta snd_conv stored_writeHistory
        accepts_getHistory obj)
qed

lemma saveToHistory_stored:
  assumes "\<And>v. accepts st v"
  shows "getAllHistoryIncludingExpired (snd (saveToHistory src now now' item st)) =
           new_entry src now item # take (MAX_ITEMS - 1) (fst (getHistory now' st))"
  using assms by (simp add: saveToHistory_stored_cases) (simp add: MAX_ITEMS_def)

lemma getHistory_st_full:
  "fst (getHistory 100 st_full) = replicate 199 recent_demo @ [legacy_demo]"
  by (simp add: getHistory_fst getAllHistoryIncludingExpired_def st_full_def unexpired_def
      recent_demo_def legacy_demo_def)

lemma accepts_st_full: "accepts st_full v"
  by (simp add: st_full_def)

section \<open>Facts about the rotation loop\<close>

lemma single_call:
  "generateImageApiSingle net cfg p wd h provider tok m s w =
     (single_outcome (net (length (calls w)) (single_request cfg p wd h provider tok m s)),
      w\<lparr>calls := calls w @ [single_request cfg p wd h provider tok m s]\<rparr>)"
  by (simp add: generateImageApiSingle_def Let_def)

lemma find_past_exhausted:
  "set pre \<subseteq> ex \<Longrightarrow> find (\<lambda>t. t \<notin> ex) (pre @ suf) = find (\<lambda>t. t \<notin> ex) suf"
  by (induction pre) auto

lemma calls_markTokenExhausted: "calls (markTokenExhausted provider t w) = calls w"
  by (simp add: markTokenExhausted_def)

text \<open>
  The loop when every call fails on quota, started after \<open>attempts\<close> rounds with
  the secrets \<open>pre\<close> already marked and the secrets \<open>suf\<close> still to try: it
  sends one request for each of the next \<open>MAX_RETRY_ATTEMPTS - attempts\<close>
  secrets of \<open>suf\<close>, marks each, and fails.
\<close>

lemma rotation_all_quota:
  assumes call: "\<And>t w. call t w =
        (single_outcome (net (length (calls w)) (rq t)), w\<lparr>calls := calls w @ [rq t]\<rparr>)"
      and q: "\<And>k r. quota_failure net classify k r"
  shows "allTokens = pre @ suf \<Longrightarrow> set pre \<subseteq> exhausted w provider \<Longrightarrow> distinct suf \<Longrightarrow> [] \<notin> set suf
     \<Longrightarrow> set suf \<inter> exhausted w provider = {} \<Longrightarrow> attempts \<le> MAX_RETRY_ATTEMPTS \<Longrightarrow>
     rotation_loop call classify provider allTokens True attempts w =
       (Inl (Error (if length suf < MAX_RETRY_ATTEMPTS - attempts
                    then ''All API tokens exhausted. Quota will reset tomorrow.''
                    else ''Maximum retry attempts reached'')),
        w\<lparr>exhausted := (exhausted w)(provider := exhausted w provider
                            \<union> set (take (MAX_RETRY_ATTEMPTS - attempts) suf)),
          calls := calls w @ map (\<lambda>t. rq (Some t)) (take (MAX_RETRY_ATTEMPTS - attempts) suf)\<rparr>)"
proof (induction suf arbitrary: pre attempts w)
  case Nil
  then have none: "getNextAvailableToken w provider allTokens = None"
    by (auto simp: getNextAvailableToken_def find_None_iff)
  show ?case
  proof (cases "attempts < MAX_RETRY_ATTEMPTS")
    case True
    then show ?thesis by (simp add: rotation_loop.simps[of _ _ _ _ _ attempts w] none)
  next
    case False
    then show ?thesis by (simp add: rotation_loop.simps[of _ _ _ _ _ attempts w])
  qed
next
  case (Cons t suf)
  have nxt: "getNextAvailableToken w provider allTokens = Some t"
    using Cons.prems by (simp add: getNextAvailableToken_def find_past_exhausted)
  show ?case
  proof (cases "attempts < MAX_RETRY_ATTEMPTS")
    case False
    then show ?thesis by (simp add: rotation_loop.simps[of _ _ _ _ _ attempts w])
  next
    case True
    obtain e where e: "single_outcome (net (length (calls w)) (rq (Some t))) = Inl e"
      and qe: "isQuotaError classify e"
      using q[of "length (calls w)" "rq (Some t)"]
      by (auto simp: quota_failure_def split: sum.splits)
    let ?w' = "markTokenExhausted provider t (w\<lparr>calls := calls w @ [rq (Some t)]\<rparr>)"
    have tne: "t \<noteq> []" using Cons.prems by auto
    have step: "rotation_loop call classify provider allTokens True attempts w =
        rotation_loop call classify provider allTokens True (attempts + 1) ?w'"
      using True tne
      by (simp add: rotation_loop.simps[of _ _ _ _ _ attempts w] nxt call e qe)
    have ex': "exhausted ?w' provider = insert t (exhausted w provider)"
      by (simp add: markTokenExhausted_def)
    have IH: "rotation_loop call classify provider allTokens True (attempts + 1) ?w' =
       (Inl (Error (if length suf < MAX_RETRY_ATTEMPTS - (attempts + 1)
                    then ''All API tokens exhausted. Quota will reset tomorrow.''
                    else ''Maximum retry attempts reached'')),
        ?w'\<lparr>exhausted := (exhausted ?w')(provider := exhausted ?w' provider
                            \<union> set (take (MAX_RETRY_ATTEMPTS - (attempts + 1)) suf)),
          calls := calls ?w' @ map (\<lambda>t. rq (Some t))
                                  (take (MAX_RETRY_ATTEMPTS - (attempts + 1)) suf)\<rparr>)"
    proof (rule Cons.IH[of "pre @ [t]"])
      show "allTokens = (pre @ [t]) @ suf" using Cons.prems by simp
      show "set (pre @ [t]) \<subseteq> exhausted ?w' provider" using Cons.prems by (auto simp: ex')
      show "distinct suf" using Cons.prems by simp
      show "[] \<notin> set suf" using Cons.prems by simp
      show "set suf \<inter> exhausted ?w' provider = {}" using Cons.prems by (auto simp: ex')
      show "attempts + 1 \<le> MAX_RETRY_ATTEMPTS" using True by simp
    qed
    obtain d where d: "MAX_RETRY_ATTEMPTS - attempts = Suc d" "MAX_RETRY_ATTEMPTS - (attempts + 1) = d"
      using True by (cases "MAX_RETRY_ATTEMPTS - attempts") auto
    show ?thesis
      unfolding step IH d
      by (auto simp: markTokenExhausted_def fun_eq_iff)
  qed
qed

text \<open>The shape of every run of the loop: each request but the last failed on
  quota, and the result is the outcome of the last request unless that one
  failed on quota too.\<close>

lemma rotation_loop_trace:
  "(\<And>t w. call t w = (single_outcome (net (length (calls w)) (rq t)), w\<lparr>calls := calls w @ [rq t]\<rparr>)) \<Longrightarrow>
   rotation_loop call classify provider allTokens requiresAuth attempts w = (r, w') \<Longrightarrow>
     \<exists>reqs. calls w' = calls w @ reqs
       \<and> (\<forall>i. Suc i < length reqs \<longrightarrow> quota_failure net classify (length (calls w) + i) (reqs ! i))
       \<and> (reqs \<noteq> [] \<longrightarrow>
            r = single_outcome (net (length (calls w) + length reqs - 1) (last reqs))
          \<or> quota_failure net classify (length (calls w) + length reqs - 1) (last reqs))"
proof (induction call classify provider allTokens requiresAuth attempts w arbitrary: r w'
    rule: rotation_loop.induct)
  case (1 call classify provider allTokens requiresAuth attempts w)
  note call = "1.prems"(1)
  note run = "1.prems"(2)
  have anon: ?case if "call None w = (r, w')"
  proof -
    from that have "calls w' = calls w @ [rq None]"
      and "r = single_outcome (net (length (calls w)) (rq None))"
      by (auto simp: call)
    then show ?thesis by (intro exI[of _ "[rq None]"]) simp
  qed
  have stop: ?case if "w' = w"
    using that by (intro exI[of _ "[]"]) simp
  show ?case
  proof (cases "attempts < MAX_RETRY_ATTEMPTS")
    case False
    with run have "w' = w" by (simp add: rotation_loop.simps[of _ _ _ _ _ attempts w])
    then show ?thesis by (rule stop)
  next
    case True
    note budget = True
    show ?thesis
    proof (cases "getNextAvailableToken w provider allTokens")
      case None
      with run budget have "(if \<not> requiresAuth then call None w = (r, w') else w' = w)"
        by (auto simp: rotation_loop.simps[of _ _ _ _ _ attempts w] split: if_splits)
      then show ?thesis using anon stop by (auto split: if_splits)
    next
      case (Some token)
      show ?thesis
      proof (cases "token = []")
        case True
        with run budget Some have "(if \<not> requiresAuth then call None w = (r, w') else w' = w)"
          by (auto simp: rotation_loop.simps[of _ _ _ _ _ attempts w] split: if_splits)
        then show ?thesis using anon stop by (auto split: if_splits)
      next
        case False
        let ?out = "single_outcome (net (length (calls w)) (rq (Some token)))"
        let ?w1 = "w\<lparr>calls := calls w @ [rq (Some token)]\<rparr>"
        have c: "call (Some token) w = (?out, ?w1)" by (rule call)
        show ?thesis
        proof (cases "\<exists>e. ?out = Inl e \<and> isQuotaError classify e")
          case False
          with run budget Some \<open>token \<noteq> []\<close> c have "r = ?out" "w' = ?w1"
            by (auto simp: rotation_loop.simps[of _ _ _ _ _ attempts w] split: sum.splits if_splits)
          then show ?thesis by (intro exI[of _ "[rq (Some token)]"]) simp
        next
          case True
          then obtain e where e: "?out = Inl e" and qe: "isQuotaError classify e" by blast
          let ?w2 = "markTokenExhausted provider token ?w1"
          from run budget Some \<open>token \<noteq> []\<close> c e qe
          have rec: "rotation_loop call classify provider allTokens requiresAuth (attempts + 1) ?w2 = (r, w')"
            by (simp add: rotation_loop.simps[of _ _ _ _ _ attempts w])
          have qf: "quota_failure net classify (length (calls w)) (rq (Some token))"
            using e qe by (simp add: quota_failure_def)
          from "1.IH"[OF budget Some \<open>token \<noteq> []\<close> c[symmetric] e qe call rec]
          obtain reqs where reqs: "calls w' = calls ?w2 @ reqs"
            and mid: "\<forall>i. Suc i < length reqs \<longrightarrow> quota_failure net classify (length (calls ?w2) + i) (reqs ! i)"
            and fin: "reqs \<noteq> [] \<longrightarrow>
                r = single_outcome (net (length (calls ?w2) + length reqs - 1) (last reqs))
              \<or> quota_failure net classify (length (calls ?w2) + length reqs - 1) (last reqs)"
            by blast
          have len2: "length (calls ?w2) = Suc (length (calls w))"
            by (simp add: calls_markTokenExhausted)
          show ?thesis
          proof (intro exI[of _ "rq (Some token) # reqs"] conjI allI impI)
            show "calls w' = calls w @ rq (Some token) # reqs"
              using reqs by (simp add: calls_markTokenExhausted)
          next
            fix i assume i: "Suc i < length (rq (Some token) # reqs)"
            show "quota_failure net classify (length (calls w) + i) ((rq (Some token) # reqs) ! i)"
            proof (cases i)
              case 0
              then show ?thesis using qf by simp
            next
              case (Suc j)
              with i mid len2 show ?thesis by simp
            qed
          next
            show "r = single_outcome (net (length (calls w) + length (rq (Some token) # reqs) - 1)
                      (last (rq (Some token) # reqs)))
               \<or> quota_failure net classify (length (calls w) + length (rq (Some token) # reqs) - 1)
                      (last (rq (Some token) # reqs))"
            proof (cases "reqs = []")
              case True
              then show ?thesis using qf by simp
            next
              case False
              then have "length (calls ?w2) + length reqs - 1 = length (calls w) + length (rq (Some token) # reqs) - 1"
                using len2 by simp
              with fin False show ?thesis by simp
            qed
          qed
        qed
      qed
    qed
  qed
qed

section \<open>Facts about the mount effect and the hook\<close>

text \<open>The flag \<open>generatingRef\<close> is set by the first effect that starts a run and
  never cleared: a node starts at most one run, however often the effect fires.\<close>

lemma generate_effect_guarded: "generatingRef n \<Longrightarrow> generate_effect n = (n, False)"
  by (simp add: generate_effect_def)

lemma generate_effect_sets_guard: "snd (generate_effect n) \<Longrightarrow> generatingRef (fst (generate_effect n))"
  by (simp add: generate_effect_def split: if_splits)

lemma generate_effect_once:
  "\<not> (snd (generate_effect n) \<and> snd (generate_effect (fst (generate_effect n))))"
  by (simp add: generate_effect_def)

lemma generate_effect_pending:
  "hasHydrated n \<Longrightarrow> isLoading n \<Longrightarrow> or_else (imageUrl n) [] = [] \<Longrightarrow> \<not> generatingRef n \<Longrightarrow>
     snd (generate_effect n) \<and> \<not> snd (generate_effect (fst (generate_effect n)))"
  by (simp add: generate_effect_def)

lemma generate_effect_idle: "\<not> snd (generate_effect n) \<Longrightarrow> fst (generate_effect n) = n"
  by (cases "hasHydrated n"; cases "generatingRef n"; cases "isLoading n";
      cases "or_else (imageUrl n) [] = []") (simp_all add: generate_effect_def)

lemma starts_after_guarded: "generatingRef n \<Longrightarrow> starts_after k n = 0"
  by (induction k) (simp_all add: generate_effect_guarded)

lemma starts_after_at_most_one: "starts_after k n \<le> 1"
proof (cases k)
  case 0
  then show ?thesis by simp
next
  case (Suc j)
  show ?thesis
  proof (cases "snd (generate_effect n)")
    case True
    then have "starts_after j (fst (generate_effect n)) = 0"
      by (intro starts_after_guarded generate_effect_sets_guard)
    with Suc True show ?thesis by (simp add: split_beta)
  next
    case False
    then have same: "fst (generate_effect n) = n"
      by (rule generate_effect_idle)
    have "starts_after j n \<le> 1" for j
    proof (induction j)
      case 0
      then show ?case by simp
    next
      case (Suc i)
      with False same show ?case by (simp add: split_beta)
    qed
    with Suc False same show ?thesis by (simp add: split_beta)
  qed
qed

lemma starts_after_node_demo: "starts_after 2 node_demo = 1"
  by (simp add: numeral_2_eq_2 generate_effect_def node_demo_def or_else_def)

lemma generateId_fallback:
  "generateId \<lparr>randomUUID = None, id_clock = 1700000000123, random_hex = ''9ab3''\<rparr>
     = ''hist_1700000000123_9ab3''"
  by (simp add: generateId_def show_int_def digit_def)

lemma begin_sent:
  assumes "\<not> (cfg_requiresAuth (cfg (in_provider inp)) \<and> parseTokens (in_tokens inp (in_provider inp)) = [])"
  shows "snd (handleGenerate_begin cfg parseTokens inp st)
       \<and> loading (fst (handleGenerate_begin cfg parseTokens inp st))
       \<and> (\<exists>rq. requests (fst (handleGenerate_begin cfg parseTokens inp st)) = requests st @ [rq])"
  using assms by (auto simp: handleGenerate_begin_def Let_def addStatus_def)

section \<open>Credential rotation\<close>

text \<open>
  Claim C1, as amended. Take \<open>N\<close> secrets that are pairwise distinct, none of
  them empty and none marked exhausted for the provider, with \<open>N > 0\<close> and
  \<open>requiresAuth\<close> true, and let every call fail with an error labelled
  \<^verbatim>\<open>quota\<close>. Then \<^verbatim>\<open>generateImageWithRotation\<close> sends exactly
  \<open>min N MAX_RETRY_ATTEMPTS\<close> requests, one for each of the first secrets in
  order, marks exactly those secrets exhausted, and fails: with
  "All API tokens exhausted" when \<open>N < 10\<close>, with "Maximum retry attempts
  reached" when \<open>N \<ge> 10\<close>. No call succeeds, since the result is an error.
\<close>

theorem rotation_exhausts_distinct_pool:
  assumes some: "allTokens \<noteq> []"
      and dist: "distinct allTokens"
      and nonempty: "[] \<notin> set allTokens"
      and avail: "set allTokens \<inter> exhausted w provider = {}"
      and q: "\<And>k rq. quota_failure net classify k rq"
  shows "generateImageWithRotation net classify cfg p wd h provider allTokens m s True w =
     (Inl (Error (if length allTokens < MAX_RETRY_ATTEMPTS
                  then ''All API tokens exhausted. Quota will reset tomorrow.''
                  else ''Maximum retry attempts reached'')),
      w\<lparr>exhausted := (exhausted w)(provider := exhausted w provider
                          \<union> set (take MAX_RETRY_ATTEMPTS allTokens)),
        calls := calls w @ map (\<lambda>t. single_request cfg p wd h provider (Some t) m s)
                              (take MAX_RETRY_ATTEMPTS allTokens)\<rparr>)
   \<and> length (calls (snd (generateImageWithRotation net classify cfg p wd h provider allTokens
                            m s True w)))
       = length (calls w) + min (length allTokens) MAX_RETRY_ATTEMPTS"
proof -
  have "rotation_loop (\<lambda>token. generateImageApiSingle net cfg p wd h provider token m s)
          classify provider allTokens True 0 w =
     (Inl (Error (if length allTokens < MAX_RETRY_ATTEMPTS - 0
                  then ''All API tokens exhausted. Quota will reset tomorrow.''
                  else ''Maximum retry attempts reached'')),
      w\<lparr>exhausted := (exhausted w)(provider := exhausted w provider
                          \<union> set (take (MAX_RETRY_ATTEMPTS - 0) allTokens)),
        calls := calls w @ map (\<lambda>t. single_request cfg p wd h provider (Some t) m s)
                              (take (MAX_RETRY_ATTEMPTS - 0) allTokens)\<rparr>)"
    by (rule rotation_all_quota[where pre = "[]" and net = net])
       (simp_all add: single_call q dist nonempty avail)
  then show ?thesis using some
    by (simp add: generateImageWithRotation_def min_def)
qed

text \<open>The scenario of two secrets that both fail on quota: two requests, in
  order, both secrets marked, and the pool reported exhausted.\<close>

theorem rotation_exhausts_distinct_pool_witness:
  "distinct [''t1'', ''t2''] \<and> [] \<notin> set [''t1'', ''t2'']
   \<and> set [''t1'', ''t2''] \<inter> exhausted w_demo ''huggingface'' = {}
   \<and> (\<forall>k rq. quota_failure net_quota classify_demo k rq)
   \<and> fst (generateImageWithRotation net_quota classify_demo cfg_demo ''a cat'' 512 512
            ''huggingface'' [''t1'', ''t2''] ''z-image-turbo'' 7 True w_demo)
       = Inl (Error ''All API tokens exhausted. Quota will reset tomorrow.'')
   \<and> map auth_header (calls (snd (generateImageWithRotation net_quota classify_demo cfg_demo
            ''a cat'' 512 512 ''huggingface'' [''t1'', ''t2''] ''z-image-turbo'' 7 True w_demo)))
       = [Some (''X-HF-Token'', ''t1''), Some (''X-HF-Token'', ''t2'')]
   \<and> exhausted (snd (generateImageWithRotation net_quota classify_demo cfg_demo
            ''a cat'' 512 512 ''huggingface'' [''t1'', ''t2''] ''z-image-turbo'' 7 True w_demo))
         ''huggingface'' = {''t1'', ''t2''}"
proof -
  have q: "quota_failure net_quota classify_demo k rq" for k rq
    by (simp add: quota_failure_def net_quota_def reply_demo_def single_outcome_def
        classify_demo_def isQuotaError_def)
  have free: "set [''t1'', ''t2''] \<inter> exhausted w_demo ''huggingface'' = {}"
    by (simp add: w_demo_def)
  from rotation_exhausts_distinct_pool[of "[''t1'', ''t2'']" w_demo "''huggingface''" net_quota
      classify_demo cfg_demo "''a cat''" 512 512 "''z-image-turbo''" 7, OF _ _ _ free q]
  show ?thesis using q
    by (simp add: MAX_RETRY_ATTEMPTS_def w_demo_def single_request_def cfg_demo_def insert_commute)
qed

text \<open>
  Claim C1 as stated fails on a list that names a secret twice. Exhaustion is
  recorded per secret, so after the first quota failure of \<^verbatim>\<open>t1\<close> no entry of
  \<^verbatim>\<open>[t1, t1]\<close> is available: one request is sent, where \<open>min N 10\<close> is two.
\<close>

theorem rotation_duplicate_secret_counterexample:
  "[''t1'', ''t1''] \<noteq> []
   \<and> (\<forall>k rq. quota_failure net_quota classify_demo k rq)
   \<and> min (length [''t1'', ''t1'']) MAX_RETRY_ATTEMPTS = 2
   \<and> length (calls (snd (generateImageWithRotation net_quota classify_demo cfg_demo ''a cat''
        512 512 ''huggingface'' [''t1'', ''t1''] ''z-image-turbo'' 7 True w_demo))) = 1
   \<and> fst (generateImageWithRotation net_quota classify_demo cfg_demo ''a cat''
        512 512 ''huggingface'' [''t1'', ''t1''] ''z-image-turbo'' 7 True w_demo)
       = Inl (Error ''All API tokens exhausted. Quota will reset tomorrow.'')"
proof -
  have q: "quota_failure net_quota classify_demo k rq" for k rq
    by (simp add: quota_failure_def net_quota_def reply_demo_def single_outcome_def
        classify_demo_def isQuotaError_def)
  have run: "generateImageWithRotation net_quota classify_demo cfg_demo ''a cat''
        512 512 ''huggingface'' [''t1'', ''t1''] ''z-image-turbo'' 7 True w_demo
      = (Inl (Error ''All API tokens exhausted. Quota will reset tomorrow.''),
         \<lparr>exhausted = (\<lambda>p. {})(''huggingface'' := {''t1''}),
          calls = [single_request cfg_demo ''a cat'' 512 512 ''huggingface'' (Some ''t1'')
                     ''z-image-turbo'' 7]\<rparr>)"
    by (simp add: generateImageWithRotation_def rotation_loop.simps single_call
        getNextAvailableToken_def markTokenExhausted_def w_demo_def net_quota_def reply_demo_def
        classify_demo_def single_outcome_def isQuotaError_def MAX_RETRY_ATTEMPTS_def or_else_def)
  show ?thesis using q by (simp add: run MAX_RETRY_ATTEMPTS_def)
qed

text \<open>
  Claim C2. With \<open>requiresAuth\<close> true and no credential,
  \<^verbatim>\<open>generateImageWithRotation\<close> fails with "No API Token" and leaves the
  state, the list of requests sent included, as it was; and \<^verbatim>\<open>handleGenerate\<close>
  shows the error "Please configure your ... token first", changes nothing
  else, and sends no request.
\<close>

theorem no_credential_no_call:
  "generateImageWithRotation net classify cfg p wd h provider [] m s True w
     = (Inl (Error ''No API Token''), w)
   \<and> (cfg_requiresAuth (cfg (in_provider inp)) \<and> parseTokens (in_tokens inp (in_provider inp)) = []
        \<longrightarrow>
        handleGenerate cfg parseTokens env inp st
          = st\<lparr>toasts := toasts st @ [ToastError (''Please configure your ''
                    @ cfg_name (cfg (in_provider inp)) @ '' token first'')]\<rparr>
        \<and> requests (handleGenerate cfg parseTokens env inp st) = requests st)"
  by (simp add: generateImageWithRotation_def handleGenerate_def handleGenerate_begin_def
      show_toast_def Let_def)

theorem no_credential_no_call_witness:
  "cfg_requiresAuth (cfg_strict (in_provider inp_demo))
   \<and> parse_demo (in_tokens inp_demo (in_provider inp_demo)) = []
   \<and> generateImageWithRotation net_quota classify_demo cfg_strict ''a cat'' 512 512 ''gitee'' []
        ''z-image-turbo'' 7 True w_demo = (Inl (Error ''No API Token''), w_demo)
   \<and> toasts (handleGenerate cfg_strict parse_demo env_demo inp_demo hook_demo)
       = [ToastError ''Please configure your Gitee AI token first'']
   \<and> requests (handleGenerate cfg_strict parse_demo env_demo inp_demo hook_demo) = []
   \<and> loading (handleGenerate cfg_strict parse_demo env_demo inp_demo hook_demo) = False"
  using no_credential_no_call[of net_quota classify_demo cfg_strict "''a cat''" 512 512 "''gitee''"
      "''z-image-turbo''" 7 w_demo inp_demo parse_demo env_demo hook_demo]
  by (simp add: cfg_strict_def inp_demo_def parse_demo_def hook_demo_def)

text \<open>
  Claim C3, as amended. In every run of \<^verbatim>\<open>generateImageWithRotation\<close>, a call
  that fails with an error labelled \<^verbatim>\<open>auth\<close> is the last request of the run,
  and its error is the result of the run. So no other secret is tried after it,
  and no anonymous call is made either, whether or not the provider permits
  anonymous access. (\<open>k\<close> is the position of the failed call among all requests
  sent.)
\<close>

theorem auth_failure_ends_run:
  assumes run: "generateImageWithRotation net classify cfg p wd h provider allTokens m s
                  requiresAuth w = (r, w')"
      and new: "length (calls w) \<le> k"
      and made: "k < length (calls w')"
      and failed: "single_outcome (net k (calls w' ! k)) = Inl e"
      and cls: "classify e = auth"
  shows "r = Inl e \<and> Suc k = length (calls w')"
proof -
  have nq: "\<not> quota_failure net classify k (calls w' ! k)"
    using failed cls by (simp add: quota_failure_def isQuotaError_def)
  have shape: "\<exists>reqs. calls w' = calls w @ reqs
       \<and> (\<forall>i. Suc i < length reqs \<longrightarrow> quota_failure net classify (length (calls w) + i) (reqs ! i))
       \<and> (reqs \<noteq> [] \<longrightarrow>
            r = single_outcome (net (length (calls w) + length reqs - 1) (last reqs))
          \<or> quota_failure net classify (length (calls w) + length reqs - 1) (last reqs))"
  proof (cases "allTokens = []")
    case False
    with run have "rotation_loop (\<lambda>token. generateImageApiSingle net cfg p wd h provider token m s)
          classify provider allTokens requiresAuth 0 w = (r, w')"
      by (simp add: generateImageWithRotation_def)
    then show ?thesis
      by (rule rotation_loop_trace[rotated]) (simp add: single_call)
  next
    case True
    show ?thesis
    proof (cases requiresAuth)
      case True
      with run \<open>allTokens = []\<close> have "w' = w" by (simp add: generateImageWithRotation_def)
      then show ?thesis by (intro exI[of _ "[]"]) simp
    next
      case False
      with run \<open>allTokens = []\<close> show ?thesis
        by (intro exI[of _ "[single_request cfg p wd h provider None m s]"])
           (auto simp: generateImageWithRotation_def single_call)
    qed
  qed
  then obtain reqs where reqs: "calls w' = calls w @ reqs"
    and mid: "\<forall>i. Suc i < length reqs \<longrightarrow> quota_failure net classify (length (calls w) + i) (reqs ! i)"
    and fin: "reqs \<noteq> [] \<longrightarrow>
            r = single_outcome (net (length (calls w) + length reqs - 1) (last reqs))
          \<or> quota_failure net classify (length (calls w) + length reqs - 1) (last reqs)"
    by blast
  define i where "i = k - length (calls w)"
  have k: "k = length (calls w) + i" and i: "i < length reqs"
    using new made reqs by (simp_all add: i_def)
  have at: "calls w' ! k = reqs ! i"
    by (simp add: reqs k nth_append)
  have last_i: "Suc i = length reqs"
  proof (rule ccontr)
    assume "Suc i \<noteq> length reqs"
    with i have "Suc i < length reqs" by simp
    with mid have "quota_failure net classify (length (calls w) + i) (reqs ! i)" by blast
    with nq at k show False by simp
  qed
  have ne: "reqs \<noteq> []" using i by auto
  have "length reqs - 1 = i" using last_i by arith
  with ne have l: "last reqs = reqs ! i" by (simp add: last_conv_nth)
  have pos: "length (calls w) + length reqs - 1 = k" using k last_i by arith
  from fin ne l pos at nq have "r = single_outcome (net k (calls w' ! k))" by simp
  with failed last_i reqs k show ?thesis by simp
qed

text \<open>A run that rotates once and is then rejected: the first secret fails on
  quota, the second with an \<^verbatim>\<open>auth\<close> error, the third is never tried, and no
  anonymous call follows although the provider permits anonymous access.\<close>

theorem auth_failure_ends_run_witness:
  "length (calls w_demo) \<le> 1
   \<and> 1 < length (calls (snd (generateImageWithRotation net_rejecting classify_demo cfg_demo
            ''a cat'' 512 512 ''huggingface'' [''t1'', ''t2'', ''t3''] ''z-image-turbo'' 7 False w_demo)))
   \<and> single_outcome (net_rejecting 1 (calls (snd (generateImageWithRotation net_rejecting
            classify_demo cfg_demo ''a cat'' 512 512 ''huggingface'' [''t1'', ''t2'', ''t3'']
            ''z-image-turbo'' 7 False w_demo)) ! 1))
       = Inl \<lparr>err_message = ''refused'', err_status = Some 401\<rparr>
   \<and> classify_demo \<lparr>err_message = ''refused'', err_status = Some 401\<rparr> = auth
   \<and> fst (generateImageWithRotation net_rejecting classify_demo cfg_demo
            ''a cat'' 512 512 ''huggingface'' [''t1'', ''t2'', ''t3''] ''z-image-turbo'' 7 False w_demo)
       = Inl \<lparr>err_message = ''refused'', err_status = Some 401\<rparr>
   \<and> Suc 1 = length (calls (snd (generateImageWithRotation net_rejecting classify_demo cfg_demo
            ''a cat'' 512 512 ''huggingface'' [''t1'', ''t2'', ''t3''] ''z-image-turbo'' 7 False w_demo)))"
proof -
  let ?run = "generateImageWithRotation net_rejecting classify_demo cfg_demo
            ''a cat'' 512 512 ''huggingface'' [''t1'', ''t2'', ''t3''] ''z-image-turbo'' 7 False w_demo"
  have made: "map auth_header (calls (snd ?run))
      = [Some (''X-HF-Token'', ''t1''), Some (''X-HF-Token'', ''t2'')]"
    by (simp add: generateImageWithRotation_def rotation_loop.simps single_call
        getNextAvailableToken_def markTokenExhausted_def w_demo_def net_rejecting_def reply_demo_def
        classify_demo_def single_outcome_def isQuotaError_def MAX_RETRY_ATTEMPTS_def or_else_def
        single_request_def cfg_demo_def)
  have len: "length (calls (snd ?run)) = 2"
    using arg_cong[OF made, of length] by simp
  have failed: "single_outcome (net_rejecting 1 (calls (snd ?run) ! 1))
       = Inl \<lparr>err_message = ''refused'', err_status = Some 401\<rparr>"
    by (simp add: net_rejecting_def reply_demo_def single_outcome_def or_else_def)
  have cls: "classify_demo \<lparr>err_message = ''refused'', err_status = Some 401\<rparr> = auth"
    by (simp add: classify_demo_def)
  have new: "length (calls w_demo) \<le> 1" by (simp add: w_demo_def)
  have lt: "1 < length (calls (snd ?run))" using len by simp
  from auth_failure_ends_run[OF prod.collapse[symmetric] new lt failed cls]
  show ?thesis using new lt failed cls by simp
qed

text \<open>
  Claim C3 as stated fails where it promises the anonymous fallback. Here the
  provider permits anonymous access (\<open>requiresAuth\<close> is false), the one
  configured secret is rejected with an \<^verbatim>\<open>auth\<close> error, and the run ends with
  that error after a single request, which carried the secret: no anonymous
  call is made.
\<close>

theorem auth_failure_no_anonymous_fallback_counterexample:
  "classify_demo \<lparr>err_message = ''refused'', err_status = Some 401\<rparr> = auth
   \<and> fst (generateImageWithRotation (\<lambda>k rq. reply_demo 401) classify_demo cfg_demo
            ''a cat'' 512 512 ''huggingface'' [''t1''] ''z-image-turbo'' 7 False w_demo)
       = Inl \<lparr>err_message = ''refused'', err_status = Some 401\<rparr>
   \<and> map auth_header (calls (snd (generateImageWithRotation (\<lambda>k rq. reply_demo 401) classify_demo
            cfg_demo ''a cat'' 512 512 ''huggingface'' [''t1''] ''z-image-turbo'' 7 False w_demo)))
       = [Some (''X-HF-Token'', ''t1'')]
   \<and> filter (\<lambda>rq. auth_header rq = None)
        (calls (snd (generateImageWithRotation (\<lambda>k rq. reply_demo 401) classify_demo
            cfg_demo ''a cat'' 512 512 ''huggingface'' [''t1''] ''z-image-turbo'' 7 False w_demo)))
       = []"
  by (simp add: generateImageWithRotation_def rotation_loop.simps single_call
        getNextAvailableToken_def markTokenExhausted_def w_demo_def reply_demo_def
        classify_demo_def single_outcome_def isQuotaError_def MAX_RETRY_ATTEMPTS_def or_else_def
        single_request_def cfg_demo_def)

text \<open>
  Claim C9. With \<open>requiresAuth\<close> false and no credential,
  \<^verbatim>\<open>generateImageWithRotation\<close> is one call of \<^verbatim>\<open>generateImageApiSingle\<close>
  without a token: it sends exactly one request, which carries no
  authentication header, and returns that call's outcome as it is, success or
  failure; no secret is marked exhausted.
\<close>

theorem anonymous_single_call:
  "generateImageWithRotation net classify cfg p wd h provider [] m s False w
     = generateImageApiSingle net cfg p wd h provider None m s w
   \<and> generateImageWithRotation net classify cfg p wd h provider [] m s False w
     = (single_outcome (net (length (calls w)) (single_request cfg p wd h provider None m s)),
        w\<lparr>calls := calls w @ [single_request cfg p wd h provider None m s]\<rparr>)
   \<and> auth_header (single_request cfg p wd h provider None m s) = None"
  by (simp add: generateImageWithRotation_def single_call single_request_def)

theorem anonymous_single_call_witness:
  "fst (generateImageWithRotation net_quota classify_demo cfg_demo ''a cat'' 512 512
          ''huggingface'' [] ''z-image-turbo'' 7 False w_demo)
     = Inl \<lparr>err_message = ''refused'', err_status = Some 429\<rparr>
   \<and> map auth_header (calls (snd (generateImageWithRotation net_quota classify_demo cfg_demo
          ''a cat'' 512 512 ''huggingface'' [] ''z-image-turbo'' 7 False w_demo))) = [None]"
  using anonymous_single_call[of net_quota classify_demo cfg_demo "''a cat''" 512 512
      "''huggingface''" "''z-image-turbo''" 7 w_demo]
  by (simp add: single_call net_quota_def reply_demo_def single_outcome_def or_else_def w_demo_def
      single_request_def)

section \<open>Single flight\<close>

text \<open>
  Claim C4, on \<^verbatim>\<open>handleGenerate\<close>. The handler sets \<open>loading\<close> but never reads
  it, and has no other guard: unless the provider requires a token and none is
  configured, a second invocation made while the first is still waiting for its
  answer (\<open>loading\<close> is true) sends a second generation request. Two starts
  send two requests, not one.
\<close>

theorem handleGenerate_twice_sends_twice:
  assumes "\<not> (cfg_requiresAuth (cfg (in_provider inp))
             \<and> parseTokens (in_tokens inp (in_provider inp)) = [])"
  shows "loading (fst (handleGenerate_begin cfg parseTokens inp st))
       \<and> snd (handleGenerate_begin cfg parseTokens inp (fst (handleGenerate_begin cfg parseTokens inp st)))
       \<and> length (requests (fst (handleGenerate_begin cfg parseTokens inp
                     (fst (handleGenerate_begin cfg parseTokens inp st)))))
           = length (requests st) + 2"
proof -
  let ?st1 = "fst (handleGenerate_begin cfg parseTokens inp st)"
  from assms begin_sent[of cfg inp parseTokens st] obtain rq where
    1: "loading ?st1" "requests ?st1 = requests st @ [rq]" by blast
  from assms begin_sent[of cfg inp parseTokens ?st1] obtain rq' where
    2: "snd (handleGenerate_begin cfg parseTokens inp ?st1)"
       "requests (fst (handleGenerate_begin cfg parseTokens inp ?st1)) = requests ?st1 @ [rq']"
    by blast
  from 1 2 show ?thesis by simp
qed

theorem handleGenerate_twice_sends_twice_witness:
  "\<not> (cfg_requiresAuth (cfg_demo (in_provider inp_demo))
        \<and> parse_demo (in_tokens inp_demo (in_provider inp_demo)) = [])
   \<and> requests hook_demo = []
   \<and> loading (fst (handleGenerate_begin cfg_demo parse_demo inp_demo hook_demo))
   \<and> map endpoint (requests (fst (handleGenerate_begin cfg_demo parse_demo inp_demo
           (fst (handleGenerate_begin cfg_demo parse_demo inp_demo hook_demo)))))
       = [''/api/generate'', ''/api/generate'']"
proof -
  have ok: "\<not> (cfg_requiresAuth (cfg_demo (in_provider inp_demo))
        \<and> parse_demo (in_tokens inp_demo (in_provider inp_demo)) = [])"
    by (simp add: cfg_demo_def)
  have sent: "map endpoint (requests (fst (handleGenerate_begin cfg_demo parse_demo inp_demo
           (fst (handleGenerate_begin cfg_demo parse_demo inp_demo hook_demo)))))
       = [''/api/generate'', ''/api/generate'']"
    by (simp add: handleGenerate_begin_def Let_def cfg_demo_def addStatus_def hook_demo_def
        generate_request_def)
  from handleGenerate_twice_sends_twice[where cfg = cfg_demo and inp = inp_demo
      and parseTokens = parse_demo and st = hook_demo] ok sent
  show ?thesis by (simp add: hook_demo_def)
qed

section \<open>Chained upscale\<close>

text \<open>
  What \<^verbatim>\<open>handleGenerate\<close> does when the primary generation succeeds (the
  response carries image details with a URL), the automatic upscale is switched
  on and applicable (the URL starts with \<^verbatim>\<open>http\<close>), and the upscale comes
  back as one of the outcomes the handler reports as failed (a failure, or a
  success without a URL). The run ends as a success: \<open>loading\<close> is false, the
  image details shown are the original ones, URL included; the only
  notifications are the advisory "8K upscale failed, showing original image" and
  the success "Image generated!"; the status log ends with the advisory line.
  \<^verbatim>\<open>saveToHistory\<close> is called with the original URL, and the entry is the
  first stored one when the store takes the write.
\<close>

lemma reported_upscale_failure_keeps_result:
  assumes allowed: "\<not> (cfg_requiresAuth (cfg (in_provider inp))
                       \<and> parseTokens (in_tokens inp (in_provider inp)) = [])"
      and primary: "read_response (generate_reply env) = Success (DObject data)"
                  "j_imageDetails data = Some d" "img_url d \<noteq> []"
      and enabled: "in_upscale8k inp" "take 4 (img_url d) = ''http''"
      and secondary: "upscale_failure_reason (read_response (upscale_reply env)) = Some why"
  shows "loading (handleGenerate cfg parseTokens env inp st) = False
       \<and> imageDetails (handleGenerate cfg parseTokens env inp st)
           = Some \<lparr>details = d, meta_historyId = Some (generateId (ids env)),
                   meta_generatedAt = Some (clock_generated env)\<rparr>
       \<and> historyId (handleGenerate cfg parseTokens env inp st) = Some (generateId (ids env))
       \<and> toasts (handleGenerate cfg parseTokens env inp st)
           = toasts st @ [ToastError ''8K upscale failed, showing original image'',
                          ToastSuccess ''Image generated!'']
       \<and> status (handleGenerate cfg parseTokens env inp st)
           = ''Initializing...'' @ [CHR 0x0A] @ ''Sending request to ''
             @ cfg_name (cfg (in_provider inp)) @ ''...''
             @ [CHR 0x0A] @ ''Image generated in '' @ img_duration d @ ''!''
             @ [CHR 0x0A] @ ''Upscaling to 8K...''
             @ [CHR 0x0A] @ ''8K upscale failed: '' @ why
       \<and> storage (handleGenerate cfg parseTokens env inp st)
           = snd (saveToHistory (ids env) (clock_saved env) (clock_listed env)
                   \<lparr>h_url = img_url d, h_prompt = img_prompt d,
                     h_negativePrompt = img_negativePrompt d,
                     h_providerId = in_provider inp, h_providerName = img_provider d,
                     h_modelId = in_model inp, h_modelName = img_model d,
                     h_width = in_width inp, h_height = in_height inp,
                     h_steps = img_steps d, h_seed = img_seed d,
                     h_duration = Some (img_duration d), h_source = Some ''home''\<rparr>
                   (storage st))
       \<and> ((\<forall>v. accepts (storage st) v) \<longrightarrow>
            (\<exists>e rest. getAllHistoryIncludingExpired (storage (handleGenerate cfg parseTokens env inp st))
               = e # rest
             \<and> jprop e ''url'' = Some (JStr (img_url d))
             \<and> jprop e ''id'' = Some (JStr (generateId (ids env)))))"
proof -
  let ?item = "\<lparr>h_url = img_url d, h_prompt = img_prompt d,
                 h_negativePrompt = img_negativePrompt d,
                 h_providerId = in_provider inp, h_providerName = img_provider d,
                 h_modelId = in_model inp, h_modelName = img_model d,
                 h_width = in_width inp, h_height = in_height inp,
                 h_steps = img_steps d, h_seed = img_seed d,
                 h_duration = Some (img_duration d), h_source = Some ''home''\<rparr>"
  let ?save = "saveToHistory (ids env) (clock_saved env) (clock_listed env) ?item (storage st)"
  have stored: "getAllHistoryIncludingExpired (snd ?save)
      = new_entry (ids env) (clock_saved env) ?item
          # take (MAX_ITEMS - 1) (fst (getHistory (clock_listed env) (storage st)))"
    if "\<forall>v. accepts (storage st) v"
    by (rule saveToHistory_stored) (simp add: that)
  have id: "fst ?save = generateId (ids env)" by (rule saveToHistory_fst)
  have blocked: "(cfg_requiresAuth (cfg (in_provider inp))
                   \<and> parseTokens (in_tokens inp (in_provider inp)) = []) = False"
    using allowed by simp
  have up: "auto_upscale parseTokens env inp d s =
      (Inr d, show_toast (ToastError ''8K upscale failed, showing original image'')
         (addStatus (''8K upscale failed: '' @ why)
            ((addStatus ''Upscaling to 8K...'' s)
               \<lparr>requests := requests (addStatus ''Upscaling to 8K...'' s) @
                  [upscale_request (img_url d) 4
                     (if parseTokens (in_tokens inp ''huggingface'') \<noteq> []
                      then Many (parseTokens (in_tokens inp ''huggingface'')) else Undefined)]\<rparr>)))"
    for s
    using secondary
    by (auto simp: auto_upscale_def Let_def upscale_failure_reason_def
        split: ApiResponse.splits json_data.splits if_splits)
  have run: "handleGenerate cfg parseTokens env inp st =
     st\<lparr>loading := False,
        imageDetails := Some \<lparr>details = d, meta_historyId = Some (fst ?save),
                   meta_generatedAt = Some (clock_generated env)\<rparr>,
        historyId := Some (fst ?save), generatedAt := Some (clock_generated env),
        isUpscaled := False, isBlurred := False, showInfo := False,
        status := ''Initializing...'' @ [CHR 0x0A] @ ''Sending request to ''
             @ cfg_name (cfg (in_provider inp)) @ ''...''
             @ [CHR 0x0A] @ ''Image generated in '' @ img_duration d @ ''!''
             @ [CHR 0x0A] @ ''Upscaling to 8K...''
             @ [CHR 0x0A] @ ''8K upscale failed: '' @ why,
        toasts := toasts st @ [ToastError ''8K upscale failed, showing original image'',
                          ToastSuccess ''Image generated!''],
        requests := requests st @ [generate_request cfg
            \<lparr>o_provider = in_provider inp, o_prompt = in_prompt inp,
              o_negativePrompt = Some (in_negativePrompt inp),
              o_width = in_width inp, o_height = in_height inp,
              o_steps = Some (in_steps inp), o_seed = None,
              o_model = Some (in_model inp)\<rparr> Undefined,
            upscale_request (img_url d) 4 (if parseTokens (in_tokens inp ''huggingface'') \<noteq> []
               then Many (parseTokens (in_tokens inp ''huggingface'')) else Undefined)],
        storage := snd ?save\<rparr>"
    using primary enabled
    by (simp add: handleGenerate_def handleGenerate_begin_def handleGenerate_resume_def
        up Let_def split_beta addStatus_def show_toast_def blocked)
  show ?thesis
    unfolding run using stored id
    by (simp add: new_entry_url new_entry_id)
qed

text \<open>The sample run, whose upscale request is answered with status 500.\<close>

lemma reported_upscale_failure_example:
  "upscale_failure_reason (read_response (upscale_reply env_demo)) = Some ''refused''
   \<and> loading (handleGenerate cfg_demo parse_demo env_demo inp_demo hook_demo) = False
   \<and> imageDetails (handleGenerate cfg_demo parse_demo env_demo inp_demo hook_demo)
       = Some \<lparr>details = details_demo, meta_historyId = Some ''6f1c'', meta_generatedAt = Some 1000\<rparr>
   \<and> toasts (handleGenerate cfg_demo parse_demo env_demo inp_demo hook_demo)
       = [ToastError ''8K upscale failed, showing original image'', ToastSuccess ''Image generated!'']"
proof -
  have allowed: "\<not> (cfg_requiresAuth (cfg_demo (in_provider inp_demo))
        \<and> parse_demo (in_tokens inp_demo (in_provider inp_demo)) = [])"
    by (simp add: cfg_demo_def)
  have primary: "read_response (generate_reply env_demo)
      = Success (DObject \<lparr>j_error = None, j_code = None, j_details = None,
         j_imageDetails = Some details_demo, j_url = None\<rparr>)"
    by (simp add: env_demo_def read_response_def)
  have d: "j_imageDetails \<lparr>j_error = None, j_code = None, j_details = None,
         j_imageDetails = Some details_demo, j_url = None\<rparr> = Some details_demo" by simp
  have u: "img_url details_demo \<noteq> []" "take 4 (img_url details_demo) = ''http''"
    by (simp_all add: details_demo_def)
  have on: "in_upscale8k inp_demo" by (simp add: inp_demo_def)
  have secondary: "upscale_failure_reason (read_response (upscale_reply env_demo)) = Some ''refused''"
    by (simp add: env_demo_def reply_demo_def read_response_def parseErrorResponse_def
        getErrorMessage_def or_else_def Let_def upscale_failure_reason_def)
  from reported_upscale_failure_keeps_result[where cfg = cfg_demo and inp = inp_demo
      and parseTokens = parse_demo and env = env_demo and st = hook_demo,
      OF allowed primary d u(1) on u(2) secondary]
  show ?thesis using secondary
    by (simp add: hook_demo_def env_demo_def ids_demo_def generateId_def)
qed

text \<open>
  Claim C5, where the code departs from it. The primary generation succeeds
  and the automatic upscale is switched on and applicable, as above; the
  upscale endpoint answers with status 200 and the body \<^verbatim>\<open>null\<close>. Then
  \<^verbatim>\<open>upscaleImage\<close> returns a success whose data is \<^verbatim>\<open>null\<close>, the read of
  \<^verbatim>\<open>upResult.data.url\<close> throws, and the \<^verbatim>\<open>catch\<close> block of
  \<^verbatim>\<open>handleGenerate\<close> takes over: the only notification is the error, no
  image details are shown although the primary result had arrived, the status
  log ends with an error line, and nothing is appended to the history.
\<close>

theorem upscale_null_body_fails_run:
  "read_response (generate_reply env_null)
     = Success (DObject \<lparr>j_error = None, j_code = None, j_details = None,
         j_imageDetails = Some details_demo, j_url = None\<rparr>)
   \<and> img_url details_demo = ''https://img.example/1.png'' \<and> in_upscale8k inp_demo
   \<and> read_response (upscale_reply env_null) = Success DNull
   \<and> loading (handleGenerate cfg_demo parse_demo env_null inp_demo hook_demo) = False
   \<and> imageDetails (handleGenerate cfg_demo parse_demo env_null inp_demo hook_demo) = None
   \<and> toasts (handleGenerate cfg_demo parse_demo env_null inp_demo hook_demo)
       = [ToastError ''Cannot read properties of null (reading 'url')'']
   \<and> status (handleGenerate cfg_demo parse_demo env_null inp_demo hook_demo)
       = ''Initializing...'' @ [CHR 0x0A] @ ''Sending request to HuggingFace...''
         @ [CHR 0x0A] @ ''Image generated in 3.2s!''
         @ [CHR 0x0A] @ ''Upscaling to 8K...''
         @ [CHR 0x0A] @ ''Error: Cannot read properties of null (reading 'url')''
   \<and> map endpoint (requests (handleGenerate cfg_demo parse_demo env_null inp_demo hook_demo))
       = [''/api/generate'', ''/api/upscale'']
   \<and> getAllHistoryIncludingExpired
         (storage (handleGenerate cfg_demo parse_demo env_null inp_demo hook_demo)) = []"
  by (simp add: handleGenerate_def handleGenerate_begin_def handleGenerate_resume_def
      auto_upscale_def generate_failed_def Let_def split_beta addStatus_def show_toast_def
      env_null_def env_demo_def read_response_def details_demo_def inp_demo_def cfg_demo_def
      parse_demo_def hook_demo_def generate_request_def upscale_request_def
      getAllHistoryIncludingExpired_def)

section \<open>The history ledger\<close>




text \<open>
  Claim C7. If a stored entry has a number as \<open>expiresAt\<close> and that moment has
  passed (\<open>expiresAt \<le> now\<close>), then \<^verbatim>\<open>getHistory\<close> leaves it out of its
  result, and, when the store takes the write, rewrites the store to the
  entries it returns, so a raw read afterwards does not find the entry either.
\<close>

theorem getHistory_sweeps_expired:
  assumes taken: "\<And>v. accepts st v"
      and stored: "e \<in> set (getAllHistoryIncludingExpired st)"
      and stamp: "jprop e ''expiresAt'' = Some (JNum x)"
      and passed: "x \<le> now"
  shows "e \<notin> set (fst (getHistory now st))
       \<and> history_value (snd (getHistory now st)) = Some (Doc (JArr (fst (getHistory now st))))
       \<and> e \<notin> set (getAllHistoryIncludingExpired (snd (getHistory now st)))"
proof -
  have dead: "\<not> unexpired now e"
    using stamp passed by (simp add: unexpired_def)
  then have out: "e \<notin> set (fst (getHistory now st))"
    by (simp add: getHistory_fst)
  have "length (filter (unexpired now) (safeParseArray (history_value st)))
      \<noteq> length (safeParseArray (history_value st))"
  proof
    assume "length (filter (unexpired now) (safeParseArray (history_value st)))
      = length (safeParseArray (history_value st))"
    then have "filter (unexpired now) (safeParseArray (history_value st))
      = safeParseArray (history_value st)" by (rule filter_same_length)
    then have "\<forall>i \<in> set (safeParseArray (history_value st)). unexpired now i"
      by (simp add: filter_id_conv)
    with stored dead show False by (simp add: getAllHistoryIncludingExpired_def)
  qed
  then have "history_value (snd (getHistory now st)) = Some (Doc (JArr (fst (getHistory now st))))"
    using taken by (simp add: getHistory_def Let_def writeHistory_def)
  moreover have "getAllHistoryIncludingExpired (snd (getHistory now st)) = fst (getHistory now st)"
    using taken by (simp add: stored_getHistory)
  ultimately show ?thesis using out by simp
qed

theorem getHistory_sweeps_expired_witness:
  "(\<forall>v. accepts st_demo v)
   \<and> stale_demo \<in> set (getAllHistoryIncludingExpired st_demo)
   \<and> jprop stale_demo ''expiresAt'' = Some (JNum 90) \<and> (90::int) \<le> 100
   \<and> stale_demo \<notin> set (fst (getHistory 100 st_demo))
   \<and> history_value (snd (getHistory 100 st_demo)) = Some (Doc (JArr [recent_demo, legacy_demo]))
   \<and> stale_demo \<notin> set (getAllHistoryIncludingExpired (snd (getHistory 100 st_demo)))"
proof -
  have taken: "accepts st_demo v" for v by (simp add: st_demo_def)
  have stored: "stale_demo \<in> set (getAllHistoryIncludingExpired st_demo)"
    by (simp add: getAllHistoryIncludingExpired_def st_demo_def recent_demo_def stale_demo_def
        legacy_demo_def)
  have stamp: "jprop stale_demo ''expiresAt'' = Some (JNum 90)" by (simp add: stale_demo_def)
  have listed: "fst (getHistory 100 st_demo) = [recent_demo, legacy_demo]"
    by (simp add: getHistory_fst getAllHistoryIncludingExpired_def st_demo_def unexpired_def
        recent_demo_def stale_demo_def legacy_demo_def)
  from getHistory_sweeps_expired[of st_demo stale_demo 90 100, OF taken stored stamp]
  show ?thesis using taken stored stamp by (simp add: listed)
qed

text \<open>
  Claim C8. When 200 entries are retained at the time of the append (the
  \<^verbatim>\<open>getHistory\<close> inside \<^verbatim>\<open>saveToHistory\<close> returns 200), and the store takes
  the write, the stored sequence afterwards is the new entry followed by all
  retained entries but the last, which is the oldest: 200 entries again.
\<close>

theorem saveToHistory_at_capacity:
  assumes taken: "\<And>v. accepts st v"
      and full: "length (fst (getHistory now' st)) = 200"
  shows "getAllHistoryIncludingExpired (snd (saveToHistory src now now' item st))
           = new_entry src now item # butlast (fst (getHistory now' st))
       \<and> length (getAllHistoryIncludingExpired (snd (saveToHistory src now now' item st))) = 200
       \<and> MAX_ITEMS = 200"
proof -
  let ?prev = "fst (getHistory now' st)"
  have "take (MAX_ITEMS - 1) ?prev = butlast ?prev"
    using full by (simp add: butlast_conv_take MAX_ITEMS_def)
  moreover have "getAllHistoryIncludingExpired (snd (saveToHistory src now now' item st))
      = new_entry src now item # take (MAX_ITEMS - 1) ?prev"
    using taken by (rule saveToHistory_stored)
  ultimately show ?thesis using full by (simp add: MAX_ITEMS_def)
qed

theorem saveToHistory_at_capacity_witness:
  "(\<forall>v. accepts st_full v) \<and> length (fst (getHistory 100 st_full)) = 200
   \<and> getAllHistoryIncludingExpired (snd (saveToHistory ids_demo 100 100 item_demo st_full))
       = new_entry ids_demo 100 item_demo # replicate 199 recent_demo
   \<and> length (getAllHistoryIncludingExpired (snd (saveToHistory ids_demo 100 100 item_demo st_full)))
       = 200"
proof -
  have full: "length (fst (getHistory 100 st_full)) = 200"
    by (simp add: getHistory_st_full)
  from saveToHistory_at_capacity[of st_full 100 ids_demo 100 item_demo, OF accepts_st_full full]
  show ?thesis using full by (simp add: getHistory_st_full accepts_st_full)
qed

text \<open>
  Claim C10, as amended. An entry whose \<open>expiresAt\<close> is missing or not a number
  counts as unexpired at every clock value: \<^verbatim>\<open>getHistory\<close> returns it and keeps
  it in the store, and \<^verbatim>\<open>clearExpiredHistory\<close> keeps it in the store, whether
  or not the store takes their writes. \<^verbatim>\<open>saveToHistory\<close> keeps it as long as
  it is among the first 199 retained entries; from the 200th place it is cut off
  by the limit of \<open>MAX_ITEMS\<close>, like any other entry.
\<close>

theorem malformed_entry_retained:
  assumes stored: "e \<in> set (getAllHistoryIncludingExpired st)"
      and malformed: "\<not> is_number (jprop e ''expiresAt'')"
  shows "e \<in> set (fst (getHistory now st))
       \<and> e \<in> set (getAllHistoryIncludingExpired (snd (getHistory now st)))
       \<and> e \<in> set (getAllHistoryIncludingExpired (snd (clearExpiredHistory now st)))
       \<and> (e \<in> set (take (MAX_ITEMS - 1) (fst (getHistory now' st))) \<longrightarrow>
            e \<in> set (getAllHistoryIncludingExpired (snd (saveToHistory src t now' item st))))"
proof -
  have keep: "unexpired c e" for c
    using malformed by (rule malformed_unexpired)
  have listed: "e \<in> set (fst (getHistory c st))" for c
    using stored keep by (simp add: getHistory_fst)
  have swept: "e \<in> set (getAllHistoryIncludingExpired (snd (getHistory c st)))" for c
    using stored listed[of c] by (simp add: stored_getHistory)
  have cleared: "e \<in> set (getAllHistoryIncludingExpired (snd (clearExpiredHistory now st)))"
  proof -
    have "filter is_object (filter (unexpired now) (getAllHistoryIncludingExpired st))
        = filter (unexpired now) (getAllHistoryIncludingExpired st)"
      by (rule filter_True) (auto simp: getAllHistoryIncludingExpired_def dest: safeParseArray_objects)
    then have "getAllHistoryIncludingExpired (snd (clearExpiredHistory now st)) =
        (if accepts st (Doc (JArr (filter (unexpired now) (getAllHistoryIncludingExpired st))))
         then filter (unexpired now) (getAllHistoryIncludingExpired st)
         else getAllHistoryIncludingExpired st)"
      by (simp only: clearExpiredHistory_def Let_def snd_conv stored_writeHistory)
    then show ?thesis using stored keep by simp
  qed
  have saved: "e \<in> set (getAllHistoryIncludingExpired (snd (saveToHistory src t now' item st)))"
    if early: "e \<in> set (take (MAX_ITEMS - 1) (fst (getHistory now' st)))"
    using early swept[of now']
    by (simp add: saveToHistory_stored_cases) (simp add: MAX_ITEMS_def)
  show ?thesis using listed swept cleared saved by blast
qed

theorem malformed_entry_retained_witness:
  "legacy_demo \<in> set (getAllHistoryIncludingExpired st_demo)
   \<and> \<not> is_number (jprop legacy_demo ''expiresAt'')
   \<and> legacy_demo \<in> set (fst (getHistory 1000000 st_demo))
   \<and> legacy_demo \<in> set (getAllHistoryIncludingExpired (snd (getHistory 1000000 st_demo)))
   \<and> legacy_demo \<in> set (getAllHistoryIncludingExpired (snd (clearExpiredHistory 1000000 st_demo)))
   \<and> legacy_demo \<in> set (take (MAX_ITEMS - 1) (fst (getHistory 1000000 st_demo)))
   \<and> legacy_demo \<in> set (getAllHistoryIncludingExpired
                          (snd (saveToHistory ids_demo 1000000 1000000 item_demo st_demo)))"
proof -
  have stored: "legacy_demo \<in> set (getAllHistoryIncludingExpired st_demo)"
    by (simp add: getAllHistoryIncludingExpired_def st_demo_def recent_demo_def stale_demo_def
        legacy_demo_def)
  have malformed: "\<not> is_number (jprop legacy_demo ''expiresAt'')"
    by (simp add: legacy_demo_def)
  have early: "legacy_demo \<in> set (take (MAX_ITEMS - 1) (fst (getHistory 1000000 st_demo)))"
    by (simp add: getHistory_fst getAllHistoryIncludingExpired_def st_demo_def unexpired_def
        recent_demo_def stale_demo_def legacy_demo_def MAX_ITEMS_def)
  from malformed_entry_retained[OF stored malformed, of 1000000 1000000 ids_demo 1000000 item_demo]
  show ?thesis using stored malformed early by simp
qed

text \<open>
  Claim C10 as stated fails in its last part: a malformed entry does not hold
  its place until it is deleted or the history is cleared. In a store of 200
  entries whose oldest is the malformed one, a plain \<^verbatim>\<open>saveToHistory\<close> drops
  it.
\<close>

theorem malformed_entry_truncated_counterexample:
  "legacy_demo \<in> set (getAllHistoryIncludingExpired st_full)
   \<and> \<not> is_number (jprop legacy_demo ''expiresAt'')
   \<and> legacy_demo \<notin> set (getAllHistoryIncludingExpired
                             (snd (saveToHistory ids_demo 100 100 item_demo st_full)))"
proof -
  have "getAllHistoryIncludingExpired (snd (saveToHistory ids_demo 100 100 item_demo st_full))
      = new_entry ids_demo 100 item_demo # take (MAX_ITEMS - 1) (fst (getHistory 100 st_full))"
    by (rule saveToHistory_stored) (rule accepts_st_full)
  also have "\<dots> = new_entry ids_demo 100 item_demo # replicate 199 recent_demo"
    by (simp add: getHistory_st_full MAX_ITEMS_def)
  finally have gone: "legacy_demo \<notin> set (getAllHistoryIncludingExpired
                             (snd (saveToHistory ids_demo 100 100 item_demo st_full)))"
    by (simp add: new_entry_def item_demo_def ids_demo_def item_fields_def opt_field_def
        legacy_demo_def recent_demo_def)
  have "legacy_demo \<in> set (getAllHistoryIncludingExpired st_full)"
    by (simp add: getAllHistoryIncludingExpired_def st_full_def legacy_demo_def)
  with gone show ?thesis by (simp add: legacy_demo_def)
qed

end
